theory Spec2Isabelle
  imports Complex_Main "HOL-Library.Multiset"
begin

section \<open>Card engine (game.py)\<close>

text \<open>
  A card is a Python string: the rank followed by one suit letter, as \<open>build_deck\<close>
  writes it (\<open>AS\<close>, \<open>10H\<close>, \<open>KC\<close>). A hand and a deck are lists of cards; the top of
  the deck is the end of the list, since \<open>draw_card\<close> is \<open>deck.pop()\<close>.
\<close>

type_synonym card = string
type_synonym hand = "card list"

datatype py_error = IndexError | ValueError | OverflowError

subsection \<open>Python's \<open>int(str)\<close> in base 10\<close>

text \<open>
  \<open>int(rank)\<close> strips surrounding whitespace, takes an optional sign, and reads decimal
  digits that single underscores may separate; anything else raises ValueError. The model
  reads strings of 8-bit characters, so it knows ASCII whitespace and ASCII digits only,
  and it leaves out the interpreter's limit on the number of digits. Among ASCII characters
  \<open>int\<close> takes tab to carriage return and the space as whitespace; \<open>str.strip\<close> and
  \<open>str.isspace\<close> take the four separators 0x1C to 0x1F as well.
\<close>

definition int_isspace :: "char \<Rightarrow> bool" where
  "int_isspace c = (let n = (of_char c :: nat) in (9 \<le> n \<and> n \<le> 13) \<or> n = 32)"

definition py_isspace :: "char \<Rightarrow> bool" where
  "py_isspace c = (let n = (of_char c :: nat) in (9 \<le> n \<and> n \<le> 13) \<or> (28 \<le> n \<and> n \<le> 32))"

definition py_isdigit_char :: "char \<Rightarrow> bool" where
  "py_isdigit_char c = (let n = (of_char c :: nat) in 48 \<le> n \<and> n \<le> 57)"

definition py_strip :: "string \<Rightarrow> string" where
  "py_strip s = rev (dropWhile py_isspace (rev (dropWhile py_isspace s)))"

fun no_double_underscore :: "string \<Rightarrow> bool" where
  "no_double_underscore (a # b # rest) =
     (\<not> (a = CHR ''_'' \<and> b = CHR ''_'') \<and> no_double_underscore (b # rest))"
| "no_double_underscore _ = True"

definition digit_val :: "char \<Rightarrow> int" where
  "digit_val c = int (of_char c) - 48"

definition py_digits :: "string \<Rightarrow> int option" where
  "py_digits s =
     (if s = [] \<or> hd s = CHR ''_'' \<or> last s = CHR ''_'' \<or> \<not> no_double_underscore s
         \<or> \<not> list_all (\<lambda>c. py_isdigit_char c \<or> c = CHR ''_'') s
      then None
      else Some (foldl (\<lambda>n c. 10 * n + digit_val c) 0 (filter (\<lambda>c. c \<noteq> CHR ''_'') s)))"

definition py_int :: "string \<Rightarrow> int option" where
  "py_int s =
     (case rev (dropWhile int_isspace (rev (dropWhile int_isspace s))) of
        [] \<Rightarrow> None
      | c # rest \<Rightarrow>
          if c = CHR ''-'' then map_option uminus (py_digits rest)
          else if c = CHR ''+'' then py_digits rest
          else py_digits (c # rest))"

subsection \<open>\<open>draw_card\<close>, \<open>hand_value\<close>, \<open>is_blackjack\<close>, \<open>dealer_play\<close>\<close>

text \<open>
  \<open>ranks\<close> and \<open>suits\<close> of \<open>build_deck\<close>, and the deck before \<open>random.shuffle\<close>. The
  shuffle is the caller's input: a deck is any permutation of \<open>unshuffled_deck\<close>.
\<close>

definition ranks :: "string list" where
  "ranks = [''A'', ''2'', ''3'', ''4'', ''5'', ''6''] @ [''7'', ''8'', ''9'', ''10'', ''J'', ''Q'', ''K'']"

definition suits :: "string list" where
  "suits = [''H'', ''D'', ''C'', ''S'']"

definition unshuffled_deck :: "card list" where
  "unshuffled_deck = concat (map (\<lambda>r. map (\<lambda>s. r @ s) suits) ranks)"

definition is_shuffled_deck :: "card list \<Rightarrow> bool" where
  "is_shuffled_deck deck = (mset deck = mset unshuffled_deck)"

text \<open>\<open>deck.pop()\<close>: the last element leaves the list; on an empty list Python raises IndexError.\<close>

definition draw_card :: "card list \<Rightarrow> py_error + (card \<times> card list)" where
  "draw_card deck = (if deck = [] then Inl IndexError else Inr (last deck, butlast deck))"

text \<open>The \<open>for\<close> loop of \<open>hand_value\<close>, with its two counters as accumulators.\<close>

fun hand_sum :: "hand \<Rightarrow> int \<Rightarrow> nat \<Rightarrow> py_error + (int \<times> nat)" where
  "hand_sum [] tot aces = Inr (tot, aces)"
| "hand_sum (cd # rest) tot aces =
     (let rank = butlast cd in
      if rank \<in> set [''J'', ''Q'', ''K''] then hand_sum rest (tot + 10) aces
      else if rank = ''A'' then hand_sum rest (tot + 11) (aces + 1)
      else (case py_int rank of
              None \<Rightarrow> Inl ValueError
            | Some n \<Rightarrow> hand_sum rest (tot + n) aces))"

text \<open>The \<open>while total > 21 and aces\<close> loop.\<close>

fun adjust_aces :: "int \<Rightarrow> nat \<Rightarrow> int \<times> nat" where
  "adjust_aces tot aces =
     (if tot > 21 \<and> aces \<noteq> 0 then adjust_aces (tot - 10) (aces - 1) else (tot, aces))"

declare adjust_aces.simps [simp del]

definition hand_value :: "hand \<Rightarrow> py_error + (int \<times> bool)" where
  "hand_value hand =
     (case hand_sum hand 0 0 of
        Inl e \<Rightarrow> Inl e
      | Inr (tot, aces) \<Rightarrow>
          (case adjust_aces tot aces of (tot', aces') \<Rightarrow> Inr (tot', aces' > 0)))"

definition is_blackjack :: "hand \<Rightarrow> py_error + bool" where
  "is_blackjack hand =
     (case hand_value hand of
        Inl e \<Rightarrow> Inl e
      | Inr (tot, _) \<Rightarrow> Inr (length hand = 2 \<and> tot = 21))"

text \<open>
  \<open>dealer_play\<close>: the \<open>while True\<close> loop. Every turn of the loop that goes on pops a
  card, so the length of the deck bounds the number of turns.
\<close>

function dealer_play :: "hand \<Rightarrow> card list \<Rightarrow> py_error + (hand \<times> card list)" where
  "dealer_play hand deck =
     (case hand_value hand of
        Inl e \<Rightarrow> Inl e
      | Inr (tot, is_soft) \<Rightarrow>
          if tot < 17 \<or> (tot = 17 \<and> is_soft) then
            (case draw_card deck of
               Inl e \<Rightarrow> Inl e
             | Inr (c, deck') \<Rightarrow> dealer_play (hand @ [c]) deck')
          else Inr (hand, deck))"
  by pat_completeness auto
termination
  by (relation "measure (\<lambda>(hand, deck). length deck)")
     (auto simp: draw_card_def split: if_splits)

declare dealer_play.simps [simp del]

subsection \<open>The valuation in the specification's words\<close>

text \<open>
  Face cards count 10, an ace 11, any other card the number its rank reads as. A hand
  must draw, for the dealer, when its total is below 17 or is a soft 17.
\<close>

definition card_points :: "card \<Rightarrow> int option" where
  "card_points cd =
     (let rank = butlast cd in
      if rank = ''J'' \<or> rank = ''Q'' \<or> rank = ''K'' then Some 10
      else if rank = ''A'' then Some 11
      else py_int rank)"

definition is_ace :: "card \<Rightarrow> bool" where
  "is_ace cd = (butlast cd = ''A'')"

definition dealer_draws :: "hand \<Rightarrow> bool" where
  "dealer_draws h =
     (case hand_value h of
        Inl e \<Rightarrow> False
      | Inr (tot, soft) \<Rightarrow> tot < 17 \<or> (tot = 17 \<and> soft))"

section \<open>Stored state (db.py) and the conversation context\<close>

text \<open>
  The tables the matching store, the profile flow and the blackjack session manager read
  and write, with the columns they use. A table that is only read by its integer primary key
  is a map from the key; a table that is scanned, or whose key is an autoincremented row id,
  is the list of its rows. A nullable column is an \<open>option\<close>. Timestamps are natural
  numbers: the code only orders them.

  Python's integers are unbounded; SQLite's are 64-bit. \<open>sqlite3\<close> raises OverflowError
  when it is given a Python integer outside that range as a value of a statement, and an
  addition in SQL that leaves the range gives a REAL. The wallet follows both: a balance is
  an SQL number, INTEGER or REAL (as a real number: the rounding of floating point is not
  modelled, and no property below is about a REAL balance). User ids are the chat platform's
  and within the range; the counters of \<open>user_stats\<close>, which only ever grow by one, are
  taken to stay within it. No stored balance is NULL.
\<close>

definition in_int64 :: "int \<Rightarrow> bool" where
  "in_int64 n = (- (2 ^ 63) \<le> n \<and> n < 2 ^ 63)"

datatype sql_number = SqlInteger int | SqlReal real

definition num_real :: "sql_number \<Rightarrow> real" where
  "num_real x = (case x of SqlInteger n \<Rightarrow> of_int n | SqlReal r \<Rightarrow> r)"

text \<open>
  A value stored in a column of INTEGER affinity: a REAL that is a whole number within the
  range is kept as an INTEGER.
\<close>

definition store_integer_affinity :: "real \<Rightarrow> sql_number" where
  "store_integer_affinity r =
     (if of_int (floor r) = r \<and> in_int64 (floor r) then SqlInteger (floor r) else SqlReal r)"

text \<open>\<open>balance + ?\<close> with an integer bound to the placeholder.\<close>

definition sql_add :: "sql_number \<Rightarrow> int \<Rightarrow> sql_number" where
  "sql_add x d =
     (case x of
        SqlInteger n \<Rightarrow>
          if in_int64 (n + d) then SqlInteger (n + d)
          else store_integer_affinity (of_int n + of_int d)
      | SqlReal r \<Rightarrow> store_integer_affinity (r + of_int d))"

record bj_session =
  s_deck :: "card list"
  s_player_hand :: hand
  s_dealer_hand :: hand
  s_bet :: int
  s_status :: string

record swipe_row =
  sw_id :: nat
  sw_user_id :: int
  sw_target_id :: int
  sw_status :: string

record match_row =
  m_id :: nat
  m_user_a :: int
  m_user_b :: int

text \<open>
  \<open>context.user_data\<close>, the per-user dictionary of the chat framework: a key that is
  absent and a key that holds \<open>None\<close> read the same through \<open>.get\<close>.
\<close>

record profile_row =
  p_user_id :: int
  p_age :: "int option"
  p_gender :: "string option"
  p_interest :: "string option"
  p_city :: "string option"
  p_normalized_city :: "string option"
  p_lat :: "real option"
  p_lon :: "real option"
  p_name :: "string option"
  p_bio :: "string option"
  p_active :: "int option"
  p_updated_at :: nat

record media_row =
  md_id :: nat
  md_user_id :: int
  md_file_id :: string
  md_kind :: string
  md_position :: nat

record user_data =
  ud_bj_pending :: "bool option"
  ud_tinder_age :: "int option"
  ud_tinder_gender :: "string option"
  ud_tinder_interest :: "string option"
  ud_tinder_city :: "string option"
  ud_tinder_normalized_city :: "string option"
  ud_tinder_lat :: "real option"
  ud_tinder_lon :: "real option"
  ud_tinder_name :: "string option"
  ud_tinder_bio :: "string option"
  ud_tinder_media :: "(string \<times> string) list option"
  ud_tinder_edit_mode :: "bool option"
  ud_tinder_last_city_option :: "string option"
  ud_edit_for_submit :: "bool option"
  ud_contest_profile :: "profile_row option"
  ud_contest_media :: "(string \<times> string) list option"
  ud_tinder_current_target :: "int option"

text \<open>A message sent to the user: the translation keys its text is put together from.\<close>

type_synonym reply = "string list"

record world =
  user_wallets :: "int \<rightharpoonup> sql_number"
  user_stats :: "int \<rightharpoonup> (string \<Rightarrow> int)"
  blackjack_sessions :: "int \<rightharpoonup> bj_session"
  blackjack_boosts :: "int \<rightharpoonup> real option"
  settings :: "string \<rightharpoonup> string"
  tinder_profiles :: "profile_row list"
  tinder_media :: "media_row list"
  tinder_swipes :: "swipe_row list"
  tinder_matches :: "match_row list"
  referrals :: "int \<rightharpoonup> (int option \<times> int option)"
  ctx :: user_data
  sent :: "reply list"

definition respond :: "reply \<Rightarrow> world \<Rightarrow> world" where
  "respond msg w = w\<lparr>sent := sent w @ [msg]\<rparr>"

subsection \<open>Wallet ledger and statistics\<close>

definition ensure_wallet :: "int \<Rightarrow> world \<Rightarrow> world" where
  "ensure_wallet user_id w =
     (case user_wallets w user_id of
        None \<Rightarrow> w\<lparr>user_wallets := (user_wallets w)(user_id \<mapsto> SqlInteger 20)\<rparr>
      | Some b \<Rightarrow> w)"

definition get_balance :: "int \<Rightarrow> world \<Rightarrow> sql_number \<times> world" where
  "get_balance user_id w =
     (let w1 = ensure_wallet user_id w in
      (case user_wallets w1 user_id of Some b \<Rightarrow> b | None \<Rightarrow> SqlInteger 0, w1))"

text \<open>
  \<open>get_last_checkin\<close>, which \<open>game_menu_markup\<close> calls to build the keyboard of the
  game menu: it makes sure of the wallet row before it reads the date. The date and the
  keyboard are not part of a reply here; the wallet row is part of the world.
\<close>

definition game_menu_markup :: "int \<Rightarrow> world \<Rightarrow> world" where
  "game_menu_markup user_id w = ensure_wallet user_id w"

text \<open>
  \<open>adjust_balance\<close>: the wallet row is made sure of and committed first; the update then
  raises when \<open>delta\<close> cannot be bound. It also returns the new balance, which no caller
  below reads.
\<close>

definition adjust_balance :: "int \<Rightarrow> int \<Rightarrow> world \<Rightarrow> world \<times> py_error option" where
  "adjust_balance user_id delta w =
     (let w1 = ensure_wallet user_id w in
      if \<not> in_int64 delta then (w1, Some OverflowError)
      else
        case user_wallets w1 user_id of
          None \<Rightarrow> (w1, None)
        | Some b \<Rightarrow> (w1\<lparr>user_wallets := (user_wallets w1)(user_id \<mapsto> sql_add b delta)\<rparr>, None))"

text \<open>The world an \<open>adjust_balance\<close> leaves, whether or not it raised.\<close>

definition credit :: "int \<Rightarrow> int \<Rightarrow> world \<Rightarrow> world" where
  "credit user_id delta w = fst (adjust_balance user_id delta w)"

text \<open>
  The amounts that a round of bet \<open>b\<close> moves, for a user whose balance is \<open>B\<close> before
  the bet, all lie within the 64-bit range: the bet and its debit, the double payout, and the
  balances \<open>B\<close>, \<open>B - b\<close> and \<open>B + b\<close>.
\<close>

definition bet_in_range :: "int \<Rightarrow> int \<Rightarrow> bool" where
  "bet_in_range B b =
     (in_int64 b \<and> in_int64 (- b) \<and> in_int64 (b * 2) \<and> in_int64 B
      \<and> in_int64 (B - b) \<and> in_int64 (B + b))"

definition STAT_COLUMNS :: "string list" where
  "STAT_COLUMNS =
     [''referrals'', ''referral_rewards'', ''boosts_credited'', ''profiles_created'',
      ''profiles_updated'', ''votes_cast'', ''likes_given'', ''swipes'', ''matches'',
      ''purchases'', ''gifts_sent'', ''gifts_received'', ''games_played'',
      ''candidates_submitted'']"

text \<open>A new row of \<open>user_stats\<close> has every counter at its default 0.\<close>

definition increment_stat :: "int \<Rightarrow> string \<Rightarrow> int \<Rightarrow> world \<Rightarrow> world" where
  "increment_stat user_id field delta w =
     (if field \<notin> set STAT_COLUMNS \<or> delta = 0 then w
      else
        let row = (case user_stats w user_id of None \<Rightarrow> (\<lambda>c. 0) | Some r \<Rightarrow> r)
        in w\<lparr>user_stats := (user_stats w)(user_id \<mapsto> row(field := row field + delta))\<rparr>)"

subsection \<open>The blackjack session table\<close>

text \<open>The upsert raises, and writes nothing, when the bet cannot be bound.\<close>

definition save_blackjack_session ::
  "int \<Rightarrow> card list \<Rightarrow> hand \<Rightarrow> hand \<Rightarrow> int \<Rightarrow> string \<Rightarrow> world \<Rightarrow> py_error + world" where
  "save_blackjack_session user_id dk ph dh b st w =
     (if \<not> in_int64 b then Inl OverflowError
      else Inr (w\<lparr>blackjack_sessions := (blackjack_sessions w)(user_id \<mapsto>
         \<lparr>s_deck = dk, s_player_hand = ph, s_dealer_hand = dh, s_bet = b, s_status = st\<rparr>)\<rparr>))"

definition load_blackjack_session :: "int \<Rightarrow> world \<Rightarrow> bj_session option" where
  "load_blackjack_session user_id w = blackjack_sessions w user_id"

definition clear_blackjack_session :: "int \<Rightarrow> world \<Rightarrow> world" where
  "clear_blackjack_session user_id w =
     w\<lparr>blackjack_sessions := (blackjack_sessions w)(user_id := None)\<rparr>"

definition get_blackjack_boost :: "int \<Rightarrow> world \<Rightarrow> real" where
  "get_blackjack_boost user_id w =
     (case blackjack_boosts w user_id of Some (Some b) \<Rightarrow> b | _ \<Rightarrow> 0)"

section \<open>Blackjack session manager (handlers.py)\<close>

text \<open>
  A handler takes the user id that \<open>ensure_user_context\<close> gives, its inputs and the world,
  and returns the world it leaves with the exception it raised, if any: what it had written
  before raising stays written. The shuffled deck of \<open>build_deck\<close> and the draw of
  \<open>random.random()\<close> are inputs. The context object is always there.
  \<open>ensure_user_context\<close> and \<open>lang_for_user\<close> touch the tables of users and languages
  only, which are not among the tables here. A reply is the text sent; where its keyboard is
  built by \<open>game_menu_markup\<close>, the wallet row that makes sure of is in the world. The blank
  message with which \<open>send_blackjack_state\<close> takes the reply keyboard away is not counted.
\<close>

text \<open>
  \<open>format_card\<close> reads \<open>card[-1]\<close>, which raises on the empty string. A hand that
  \<open>hand_value\<close> has valued holds no empty card, so only the dealer's first card, which
  \<open>send_blackjack_state\<close> formats without valuing the dealer's hand, is checked.
\<close>

definition format_card_ok :: "card \<Rightarrow> bool" where
  "format_card_ok cd = (cd \<noteq> [])"

definition send_blackjack_state :: "hand \<Rightarrow> hand \<Rightarrow> world \<Rightarrow> world \<times> py_error option" where
  "send_blackjack_state ph dh w =
     (case hand_value ph of
        Inl e \<Rightarrow> (w, Some e)
      | Inr (player_total, _) \<Rightarrow>
          if dh = [] then (w, Some IndexError)
          else if \<not> format_card_ok (hd dh) then (w, Some IndexError)
          else (respond [''blackjack_title'', ''player_hand'', ''dealer_shows'', ''bet_set''] w, None))"

definition resolve_blackjack_outcome ::
  "int \<Rightarrow> hand \<Rightarrow> hand \<Rightarrow> int \<Rightarrow> real \<Rightarrow> world \<Rightarrow> world \<times> py_error option" where
  "resolve_blackjack_outcome user_id ph dh b rnd w =
     (case hand_value ph of
        Inl e \<Rightarrow> (w, Some e)
      | Inr (player_total, _) \<Rightarrow>
     (case hand_value dh of
        Inl e \<Rightarrow> (w, Some e)
      | Inr (dealer_total, _) \<Rightarrow>
          let boost = get_blackjack_boost user_id w;
              forced_dealer_bust =
                (boost > 0 \<and> player_total \<le> 21 \<and> dealer_total \<ge> player_total
                 \<and> dealer_total \<le> 21 \<and> rnd < boost);
              (outcome_text, paid) =
                (if player_total > 21 then (''blackjack_bust'', (w, None))
                 else if forced_dealer_bust \<or> dealer_total > 21
                   then (''blackjack_dealer_bust'', adjust_balance user_id (b * 2) w)
                 else if player_total > dealer_total
                   then (''blackjack_player_win'', adjust_balance user_id (b * 2) w)
                 else if dealer_total > player_total then (''blackjack_dealer_win'', (w, None))
                 else (''blackjack_push'', adjust_balance user_id b w))
          in case paid of
               (w1, Some e) \<Rightarrow> (w1, Some e)
             | (w1, None) \<Rightarrow>
                 let (balance, w2) = get_balance user_id w1;
                     w3 = respond [''blackjack_title'', ''player_hand'', ''dealer_hand'',
                                   outcome_text, ''balance_label''] w2
                 in (clear_blackjack_session user_id w3, None)))"

text \<open>The two lines of \<open>handle_bet_selection\<close> that deal two cards to each side.\<close>

definition deal_hands :: "card list \<Rightarrow> py_error + (hand \<times> hand \<times> card list)" where
  "deal_hands dk =
     (case draw_card dk of Inl e \<Rightarrow> Inl e | Inr (c1, d1) \<Rightarrow>
      case draw_card d1 of Inl e \<Rightarrow> Inl e | Inr (c2, d2) \<Rightarrow>
      case draw_card d2 of Inl e \<Rightarrow> Inl e | Inr (c3, d3) \<Rightarrow>
      case draw_card d3 of Inl e \<Rightarrow> Inl e | Inr (c4, d4) \<Rightarrow>
        Inr ([c1, c2], [c3, c4], d4))"

definition handle_bet_selection ::
  "int \<Rightarrow> int \<Rightarrow> card list \<Rightarrow> world \<Rightarrow> world \<times> py_error option" where
  "handle_bet_selection user_id b shuffled w =
     (case get_balance user_id w of (balance, w1) \<Rightarrow>
      if of_int b > num_real balance
        then (respond [''bet_too_high''] (game_menu_markup user_id w1), None)
      else
        let w2 = w1\<lparr>ctx := (ctx w1)\<lparr>ud_bj_pending := Some False\<rparr>\<rparr>;
            w3 = increment_stat user_id ''games_played'' 1 w2
        in
        case deal_hands shuffled of
          Inl e \<Rightarrow> (w3, Some e)
        | Inr (ph, dh, dk) \<Rightarrow>
            case adjust_balance user_id (- b) w3 of
              (w4, Some e) \<Rightarrow> (w4, Some e)
            | (w4, None) \<Rightarrow>
            case save_blackjack_session user_id dk ph dh b ''active'' w4 of
              Inl e \<Rightarrow> (w4, Some e)
            | Inr w5 \<Rightarrow>
            case is_blackjack ph of
              Inl e \<Rightarrow> (w5, Some e)
            | Inr player_bj \<Rightarrow>
            case is_blackjack dh of
              Inl e \<Rightarrow> (w5, Some e)
            | Inr dealer_bj \<Rightarrow>
                if player_bj \<or> dealer_bj then
                  let (line, paid) =
                        (if player_bj \<and> dealer_bj
                           then (''blackjack_push'', adjust_balance user_id b w5)
                         else if player_bj
                           then (''blackjack_player_blackjack'', adjust_balance user_id (b * 2) w5)
                         else (''blackjack_dealer_blackjack'', (w5, None)))
                  in case paid of
                       (w6, Some e) \<Rightarrow> (w6, Some e)
                     | (w6, None) \<Rightarrow>
                         let (balance', w7) = get_balance user_id w6;
                             w8 = respond [''blackjack_title'', ''player_hand'', ''dealer_hand'',
                                           line, ''balance_label''] w7
                         in (clear_blackjack_session user_id w8, None)
                else send_blackjack_state ph dh w5)"

definition blackjack_hit :: "int \<Rightarrow> world \<Rightarrow> world \<times> py_error option" where
  "blackjack_hit user_id w =
     (case load_blackjack_session user_id w of
        None \<Rightarrow> (respond [''no_active_game''] (game_menu_markup user_id w), None)
      | Some session \<Rightarrow>
          case draw_card (s_deck session) of
            Inl e \<Rightarrow> (w, Some e)
          | Inr (c, dk) \<Rightarrow>
              let ph = s_player_hand session @ [c] in
              case save_blackjack_session user_id dk ph (s_dealer_hand session)
                     (s_bet session) ''active'' w of
                Inl e \<Rightarrow> (w, Some e)
              | Inr w1 \<Rightarrow>
              case hand_value ph of
                Inl e \<Rightarrow> (w1, Some e)
              | Inr (tot, _) \<Rightarrow>
                  if tot > 21 then
                    let w2 = clear_blackjack_session user_id w1;
                        (balance, w3) = get_balance user_id w2
                    in (respond [''blackjack_bust'', ''player_hand'', ''balance_label''] w3, None)
                  else send_blackjack_state ph (s_dealer_hand session) w1)"

definition blackjack_stand :: "int \<Rightarrow> real \<Rightarrow> world \<Rightarrow> world \<times> py_error option" where
  "blackjack_stand user_id rnd w =
     (case load_blackjack_session user_id w of
        None \<Rightarrow> (respond [''no_active_game''] (game_menu_markup user_id w), None)
      | Some session \<Rightarrow>
          case dealer_play (s_dealer_hand session) (s_deck session) of
            Inl e \<Rightarrow> (w, Some e)
          | Inr (dh, dk) \<Rightarrow>
              resolve_blackjack_outcome user_id (s_player_hand session) dh (s_bet session) rnd w)"

definition blackjack_double :: "int \<Rightarrow> real \<Rightarrow> world \<Rightarrow> world \<times> py_error option" where
  "blackjack_double user_id rnd w =
     (case load_blackjack_session user_id w of
        None \<Rightarrow> (respond [''no_active_game''] (game_menu_markup user_id w), None)
      | Some session \<Rightarrow>
          if length (s_player_hand session) \<noteq> 2 then (respond [''double_not_allowed''] w, None)
          else
            case get_balance user_id w of (balance, w1) \<Rightarrow>
            if num_real balance < of_int (s_bet session)
              then (respond [''not_enough_points''] w1, None)
            else
              case adjust_balance user_id (- s_bet session) w1 of
                (w2, Some e) \<Rightarrow> (w2, Some e)
              | (w2, None) \<Rightarrow>
              let b = s_bet session * 2 in
              case draw_card (s_deck session) of
                Inl e \<Rightarrow> (w2, Some e)
              | Inr (c, dk) \<Rightarrow>
                  let ph = s_player_hand session @ [c] in
                  case hand_value ph of
                    Inl e \<Rightarrow> (w2, Some e)
                  | Inr (tot, _) \<Rightarrow>
                      if tot > 21 then
                        let w3 = clear_blackjack_session user_id w2;
                            (balance', w4) = get_balance user_id w3
                        in (respond [''blackjack_bust'', ''player_hand'', ''balance_label''] w4, None)
                      else
                        case dealer_play (s_dealer_hand session) dk of
                          Inl e \<Rightarrow> (w2, Some e)
                        | Inr (dh, dk') \<Rightarrow>
                            resolve_blackjack_outcome user_id ph dh b rnd
                              (clear_blackjack_session user_id w2))"

subsection \<open>Entry points: the bet prompt, a typed bet, a button\<close>

definition is_feature_enabled :: "string \<Rightarrow> world \<Rightarrow> bool" where
  "is_feature_enabled name w =
     (case settings w (''feature:'' @ name) of Some v \<Rightarrow> v = ''on'' | None \<Rightarrow> True)"

definition start_blackjack :: "int \<Rightarrow> world \<Rightarrow> world \<times> py_error option" where
  "start_blackjack user_id w =
     (if \<not> is_feature_enabled ''blackjack'' w then (respond [''feature_disabled''] w, None)
      else
        case get_balance user_id w of (balance, w1) \<Rightarrow>
        if num_real balance < 1
          then (respond [''not_enough_points''] (game_menu_markup user_id w1), None)
        else
          let w2 = w1\<lparr>ctx := (ctx w1)\<lparr>ud_bj_pending := Some True\<rparr>\<rparr>
          in (respond [''bet_prompt''] w2, None))"

text \<open>\<open>str.isdigit\<close> on a string of 8-bit characters.\<close>

definition py_isdigit :: "string \<Rightarrow> bool" where
  "py_isdigit s = (s \<noteq> [] \<and> list_all py_isdigit_char s)"

text \<open>
  \<open>quick_reply_handler\<close> up to the end of its \<open>bj_pending\<close> branch; the branches for the
  menu buttons, which follow when no bet is pending, return \<open>None\<close> here.
\<close>

definition quick_reply_handler ::
  "int \<Rightarrow> string \<Rightarrow> card list \<Rightarrow> world \<Rightarrow> (world \<times> py_error option) option" where
  "quick_reply_handler user_id msg shuffled w =
     (let text = py_strip msg in
      if text = [] then Some (w, None)
      else if ud_bj_pending (ctx w) = Some True then
        (if py_isdigit text then
           (case py_int text of
              None \<Rightarrow> Some (w, Some ValueError)
            | Some b \<Rightarrow> Some (handle_bet_selection user_id b shuffled w))
         else Some (respond [''bet_invalid''] w, None))
      else None)"

text \<open>
  \<open>button\<close>, the handler of every button press, on the data of the blackjack buttons: it
  runs the branch inside \<open>try\<close> and answers any exception with an apology. Data of other
  buttons gives \<open>None\<close> here.
\<close>

definition catch_all :: "world \<times> py_error option \<Rightarrow> world" where
  "catch_all r = (case r of (w, None) \<Rightarrow> w | (w, Some e) \<Rightarrow> respond [''Oops''] w)"

definition button :: "int \<Rightarrow> string \<Rightarrow> card list \<Rightarrow> real \<Rightarrow> world \<Rightarrow> world option" where
  "button user_id data shuffled rnd w =
     (if data = ''game:blackjack'' then Some (catch_all (start_blackjack user_id w))
      else if take 6 data = ''bjbet:'' then
        (let bet_str = drop 6 data in
         if CHR '':'' \<in> set bet_str then Some (catch_all (w, Some ValueError))
         else case py_int bet_str of
                None \<Rightarrow> Some (catch_all (w, Some ValueError))
              | Some b \<Rightarrow> Some (catch_all (handle_bet_selection user_id b shuffled w)))
      else if data = ''bj:hit'' then Some (catch_all (blackjack_hit user_id w))
      else if data = ''bj:stand'' then Some (catch_all (blackjack_stand user_id rnd w))
      else if data = ''bj:double'' then Some (catch_all (blackjack_double user_id rnd w))
      else None)"

section \<open>Matching store and candidate selection (db.py)\<close>

text \<open>
  An autoincremented row id is one more than the largest id in the table (no row of these
  tables is deleted by the operations below).
\<close>

definition next_rowid :: "nat list \<Rightarrow> nat" where
  "next_rowid ids = Suc (fold max ids 0)"

definition mark_swipe :: "int \<Rightarrow> int \<Rightarrow> string \<Rightarrow> world \<Rightarrow> world" where
  "mark_swipe user_id target_id st w =
     (let row = \<lparr>sw_id = next_rowid (map sw_id (tinder_swipes w)), sw_user_id = user_id,
                 sw_target_id = target_id, sw_status = st\<rparr>;
          w1 = w\<lparr>tinder_swipes := tinder_swipes w @ [row]\<rparr>;
          w2 = increment_stat user_id ''swipes'' 1 w1
      in if st = ''like'' then increment_stat user_id ''likes_given'' 1 w2 else w2)"

text \<open>
  \<open>INSERT OR IGNORE INTO tinder_matches (user_a, user_b)\<close>: the row is left out only
  when it breaks a uniqueness constraint of the table. \<open>init_db\<close> gives \<open>tinder_matches\<close>
  one such constraint, the primary key on the autoincremented \<open>id\<close>; there is none on
  \<open>(user_a, user_b)\<close>, and the two indexes on the table are not unique.
\<close>

definition insert_or_ignore_match :: "int \<Rightarrow> int \<Rightarrow> match_row list \<Rightarrow> match_row list" where
  "insert_or_ignore_match a b ms =
     (let row = \<lparr>m_id = next_rowid (map m_id ms), m_user_a = a, m_user_b = b\<rparr>
      in if list_ex (\<lambda>r. m_id r = m_id row) ms then ms else ms @ [row])"

definition check_mutual_like :: "int \<Rightarrow> int \<Rightarrow> world \<Rightarrow> bool \<times> world" where
  "check_mutual_like user_id target_id w =
     (let exists = list_ex (\<lambda>s. sw_user_id s = target_id \<and> sw_target_id s = user_id
                                 \<and> sw_status s = ''like'') (tinder_swipes w)
      in if exists then
           let w1 = w\<lparr>tinder_matches :=
                       insert_or_ignore_match (min user_id target_id) (max user_id target_id)
                         (tinder_matches w)\<rparr>;
               w2 = increment_stat user_id ''matches'' 1 w1;
               w3 = increment_stat target_id ''matches'' 1 w2
           in (True, w3)
         else (False, w))"

definition mark_like_and_check :: "int \<Rightarrow> int \<Rightarrow> world \<Rightarrow> bool \<times> world" where
  "mark_like_and_check user_id target_id w =
     check_mutual_like user_id target_id (mark_swipe user_id target_id ''like'' w)"

text \<open>The rows of \<open>tinder_matches\<close> for a pair of users, in canonical order.\<close>

definition match_rows :: "int \<Rightarrow> int \<Rightarrow> world \<Rightarrow> match_row list" where
  "match_rows a b w =
     filter (\<lambda>r. m_user_a r = min a b \<and> m_user_b r = max a b) (tinder_matches w)"

subsection \<open>\<open>get_next_candidate\<close>\<close>

text \<open>
  An SQL comparison is true only when both sides are there and equal; a comparison with
  NULL is not true, and a row passes \<open>WHERE\<close> only when the condition is true.
\<close>

definition sql_eq :: "'a option \<Rightarrow> 'a option \<Rightarrow> bool" where
  "sql_eq a b = (case a of None \<Rightarrow> False | Some x \<Rightarrow> (case b of None \<Rightarrow> False | Some y \<Rightarrow> x = y))"

text \<open>
  \<open>ORDER BY p.updated_at DESC LIMIT 1\<close> with \<open>fetchone\<close>: a row with the latest
  timestamp, or nothing. SQL leaves open which of several rows with the same timestamp comes
  first; the model takes the first of them in the stored order.
\<close>

fun pick_latest :: "profile_row list \<Rightarrow> profile_row option" where
  "pick_latest [] = None"
| "pick_latest (r # rs) =
     (case pick_latest rs of
        None \<Rightarrow> Some r
      | Some r' \<Rightarrow> if p_updated_at r < p_updated_at r' then Some r' else Some r)"

text \<open>
  \<open>run_query\<close>. The statement has its placeholders in this order: \<open>p.user_id != ?\<close>,
  \<open>s.user_id = ?\<close>, \<open>? = 'Any'\<close>, \<open>p.gender = ?\<close>, \<open>p.interest = ?\<close> and, when the city
  clause is there, \<open>p.normalized_city = ?\<close> last. The values are bound by position from
  \<open>params + [user_interest, user_interest, user_gender]\<close>, where \<open>params\<close> is
  \<open>[user_id, user_id]\<close> with \<open>normalized_city\<close> appended when the city clause is there.
  \<open>text_params\<close> is that list after the two user ids. The function returns the whole row;
  the code selects seven of its columns.
\<close>

definition run_query ::
  "bool \<Rightarrow> int \<Rightarrow> string option \<Rightarrow> string option \<Rightarrow> string \<Rightarrow> world \<Rightarrow> profile_row option" where
  "run_query city_filter user_id user_gender user_interest normalized_city w =
     (let with_city = (city_filter \<and> normalized_city \<noteq> []);
          text_params = (if with_city then [Some normalized_city] else [])
                        @ [user_interest, user_interest, user_gender];
          keep = (\<lambda>p.
             sql_eq (p_active p) (Some 1)
             \<and> p_user_id p \<noteq> user_id
             \<and> \<not> list_ex (\<lambda>s. sw_user_id s = user_id \<and> sw_target_id s = p_user_id p)
                     (tinder_swipes w)
             \<and> (sql_eq (text_params ! 0) (Some ''Any'') \<or> sql_eq (p_gender p) (text_params ! 1))
             \<and> (sql_eq (p_interest p) (Some ''Any'') \<or> sql_eq (p_interest p) (text_params ! 2))
             \<and> (if with_city then sql_eq (p_normalized_city p) (text_params ! 3) else True))
      in pick_latest (filter keep (tinder_profiles w)))"

definition get_next_candidate ::
  "int \<Rightarrow> string option \<Rightarrow> string option \<Rightarrow> string \<Rightarrow> world \<Rightarrow> profile_row option" where
  "get_next_candidate user_id user_gender user_interest normalized_city w =
     (case run_query True user_id user_gender user_interest normalized_city w of
        Some row \<Rightarrow> Some row
      | None \<Rightarrow> run_query False user_id user_gender user_interest normalized_city w)"

subsection \<open>Candidate selection in the specification's words\<close>

text \<open>
  A candidate is an active profile that is not the actor's, that the actor has not swiped,
  whose gender the actor's interest admits and whose interest admits the actor's gender.
  The selection takes the most recently updated candidate of the actor's locality, and when
  there is none the most recently updated candidate of all.
\<close>

definition spec_compatible ::
  "int \<Rightarrow> string option \<Rightarrow> string option \<Rightarrow> world \<Rightarrow> profile_row \<Rightarrow> bool" where
  "spec_compatible actor actor_gender actor_interest w p =
     (sql_eq (p_active p) (Some 1)
      \<and> p_user_id p \<noteq> actor
      \<and> \<not> list_ex (\<lambda>s. sw_user_id s = actor \<and> sw_target_id s = p_user_id p) (tinder_swipes w)
      \<and> (sql_eq actor_interest (Some ''Any'') \<or> sql_eq (p_gender p) actor_interest)
      \<and> (sql_eq (p_interest p) (Some ''Any'') \<or> sql_eq (p_interest p) actor_gender))"

definition spec_next_candidate ::
  "int \<Rightarrow> string option \<Rightarrow> string option \<Rightarrow> string \<Rightarrow> world \<Rightarrow> profile_row option" where
  "spec_next_candidate actor actor_gender actor_interest actor_locality w =
     (let candidates = filter (spec_compatible actor actor_gender actor_interest w)
                         (tinder_profiles w);
          nearby = filter (\<lambda>p. sql_eq (p_normalized_city p) (Some actor_locality)) candidates
      in case pick_latest nearby of
           Some p \<Rightarrow> Some p
         | None \<Rightarrow> pick_latest candidates)"

section \<open>Profile-builder flow (handlers.py)\<close>

text \<open>
  The conversation states of \<open>config.py\<close>; a handler of the flow returns the state the
  conversation is in afterwards, \<open>END\<close> when it leaves the flow.
\<close>

definition TINDER_AGE :: int where "TINDER_AGE = 5"
definition TINDER_GENDER :: int where "TINDER_GENDER = 6"
definition TINDER_INTEREST :: int where "TINDER_INTEREST = 7"
definition TINDER_CITY :: int where "TINDER_CITY = 8"
definition TINDER_NAME :: int where "TINDER_NAME = 9"
definition TINDER_BIO :: int where "TINDER_BIO = 10"
definition TINDER_MEDIA :: int where "TINDER_MEDIA = 11"
definition TINDER_CONFIRM :: int where "TINDER_CONFIRM = 12"
definition END :: int where "END = - 1"
definition REFERRAL_BONUS :: int where "REFERRAL_BONUS = 50"

text \<open>
  What the flow takes from outside: Python's \<open>str.strip\<close>, \<open>str.isdigit\<close>, \<open>int\<close> and
  \<open>str.lower\<close> on Unicode text (\<open>str_int\<close> is \<open>None\<close> where \<open>int\<close> raises ValueError,
  as it does on a superscript digit, which \<open>isdigit\<close> accepts), the two city functions of
  \<open>helpers.py\<close> (the second asks a geocoding service), and two labels of the translation
  table. What is proved of a step holds whatever they return; \<open>ascii_env\<close> below gives
  them on 7-bit text.
\<close>

record env =
  str_strip :: "string \<Rightarrow> string"
  str_isdigit :: "string \<Rightarrow> bool"
  str_int :: "string \<Rightarrow> int option"
  py_lower :: "string \<Rightarrow> string"
  normalize_city :: "string \<Rightarrow> string"
  reverse_geocode_city :: "real \<Rightarrow> real \<Rightarrow> string \<times> string"
  city_button_last :: "string \<Rightarrow> string"
  done_button :: string

text \<open>\<open>needle in text\<close> on strings, and \<open>a or b\<close> on values that may be \<open>None\<close>.\<close>

fun py_in :: "string \<Rightarrow> string \<Rightarrow> bool" where
  "py_in needle [] = (needle = [])"
| "py_in needle (c # cs) = (take (length needle) (c # cs) = needle \<or> py_in needle cs)"

definition or_str :: "string option \<Rightarrow> string option \<Rightarrow> string option" where
  "or_str a b = (case a of None \<Rightarrow> b | Some s \<Rightarrow> if s = [] then b else Some s)"

definition or_int :: "int option \<Rightarrow> int option \<Rightarrow> int option" where
  "or_int a b = (case a of None \<Rightarrow> b | Some n \<Rightarrow> if n = 0 then b else Some n)"

definition or_none :: "'a option \<Rightarrow> 'a option \<Rightarrow> 'a option" where
  "or_none a b = (case a of None \<Rightarrow> b | Some x \<Rightarrow> Some x)"

definition truthy_list :: "'a list option \<Rightarrow> bool" where
  "truthy_list m = (case m of None \<Rightarrow> False | Some xs \<Rightarrow> xs \<noteq> [])"

text \<open>The Cyrillic words the handlers look for, as their UTF-8 bytes.\<close>

definition cyr_m :: string where "cyr_m = [CHR 0xD0, CHR 0xBC]"
definition cyr_ch :: string where "cyr_ch = [CHR 0xD1, CHR 0x87]"
definition cyr_zh :: string where "cyr_zh = [CHR 0xD0, CHR 0xB6]"
definition cyr_zhen :: string where
  "cyr_zhen = [CHR 0xD0, CHR 0xB6, CHR 0xD0, CHR 0xB5, CHR 0xD0, CHR 0xBD]"
definition cyr_muzh :: string where
  "cyr_muzh = [CHR 0xD0, CHR 0xBC, CHR 0xD1, CHR 0x83, CHR 0xD0, CHR 0xB6]"
definition cyr_muzhchiny :: string where
  "cyr_muzhchiny = cyr_muzh @ cyr_ch @ [CHR 0xD0, CHR 0xB8, CHR 0xD0, CHR 0xBD, CHR 0xD1, CHR 0x8B]"
definition cyr_gotovo :: string where
  "cyr_gotovo = [CHR 0xD0, CHR 0xB3, CHR 0xD0, CHR 0xBE, CHR 0xD1, CHR 0x82, CHR 0xD0, CHR 0xBE,
                 CHR 0xD0, CHR 0xB2, CHR 0xD0, CHR 0xBE]"
definition check_mark :: string where "check_mark = [CHR 0xE2, CHR 0x9C, CHR 0x85]"

subsection \<open>The profile table\<close>

definition get_profile :: "int \<Rightarrow> world \<Rightarrow> profile_row option" where
  "get_profile user_id w = find (\<lambda>p. p_user_id p = user_id) (tinder_profiles w)"

text \<open>
  \<open>upsert_profile\<close>: a new row, or the user's row with the ten columns replaced, active
  again and stamped with the current time \<open>now\<close>.
\<close>

definition upsert_profile ::
  "int \<Rightarrow> int option \<Rightarrow> string option \<Rightarrow> string option \<Rightarrow> string option \<Rightarrow> real option
   \<Rightarrow> real option \<Rightarrow> string option \<Rightarrow> string option \<Rightarrow> string option \<Rightarrow> nat \<Rightarrow> world \<Rightarrow> world" where
  "upsert_profile user_id age gender interest city lat lon name bio norm_city now w =
     (let row = \<lparr>p_user_id = user_id, p_age = age, p_gender = gender, p_interest = interest,
                 p_city = city, p_normalized_city = norm_city, p_lat = lat, p_lon = lon,
                 p_name = name, p_bio = bio, p_active = Some 1, p_updated_at = now\<rparr>
      in if list_ex (\<lambda>p. p_user_id p = user_id) (tinder_profiles w)
         then w\<lparr>tinder_profiles :=
                  map (\<lambda>p. if p_user_id p = user_id then row else p) (tinder_profiles w)\<rparr>
         else w\<lparr>tinder_profiles := tinder_profiles w @ [row]\<rparr>)"

definition clear_profile_media :: "int \<Rightarrow> world \<Rightarrow> world" where
  "clear_profile_media user_id w =
     w\<lparr>tinder_media := filter (\<lambda>m. md_user_id m \<noteq> user_id) (tinder_media w)\<rparr>"

definition add_profile_media :: "int \<Rightarrow> string \<Rightarrow> string \<Rightarrow> nat \<Rightarrow> world \<Rightarrow> world" where
  "add_profile_media user_id file_id kind position w =
     w\<lparr>tinder_media := tinder_media w @
        [\<lparr>md_id = next_rowid (map md_id (tinder_media w)), md_user_id = user_id,
          md_file_id = file_id, md_kind = kind, md_position = position\<rparr>]\<rparr>"

text \<open>The \<open>for idx, (fid, kind) in enumerate(...)\<close> loop of \<open>tinder_save_cb\<close>.\<close>

fun add_all_media :: "int \<Rightarrow> nat \<Rightarrow> (string \<times> string) list \<Rightarrow> world \<Rightarrow> world" where
  "add_all_media user_id idx [] w = w"
| "add_all_media user_id idx ((fid, kind) # rest) w =
     add_all_media user_id (Suc idx) rest (add_profile_media user_id fid kind idx w)"

definition list_profile_media :: "int \<Rightarrow> world \<Rightarrow> (string \<times> string) list" where
  "list_profile_media user_id w =
     map (\<lambda>m. (md_file_id m, md_kind m))
       (sort_key md_position (filter (\<lambda>m. md_user_id m = user_id) (tinder_media w)))"

definition get_referrer :: "int \<Rightarrow> world \<Rightarrow> int option \<times> int option" where
  "get_referrer user_id w = (case referrals w user_id of None \<Rightarrow> (None, None) | Some r \<Rightarrow> r)"

definition mark_referral_credited :: "int \<Rightarrow> world \<Rightarrow> world" where
  "mark_referral_credited user_id w =
     (case referrals w user_id of
        None \<Rightarrow> w
      | Some (referrer_id, credited) \<Rightarrow>
          w\<lparr>referrals := (referrals w)(user_id \<mapsto> (referrer_id, Some 1))\<rparr>)"

definition get_mode :: "world \<Rightarrow> string" where
  "get_mode w = (case settings w ''mode'' of Some v \<Rightarrow> v | None \<Rightarrow> ''collect'')"

subsection \<open>The draft in the context, and the steps\<close>

definition upd_ctx :: "(user_data \<Rightarrow> user_data) \<Rightarrow> world \<Rightarrow> world" where
  "upd_ctx f w = w\<lparr>ctx := f (ctx w)\<rparr>"

definition edit_mode :: "world \<Rightarrow> bool" where
  "edit_mode w = (ud_tinder_edit_mode (ctx w) = Some True)"

text \<open>
  \<open>clear_transient_state\<close> pops the pending-bet flag; the four keys of the gift-draw flow
  that it pops as well are not among the keys of \<open>user_data\<close> here.
\<close>

definition clear_transient_state :: "world \<Rightarrow> world" where
  "clear_transient_state w = upd_ctx (\<lambda>c. c\<lparr>ud_bj_pending := None\<rparr>) w"

definition start_tinder_flow :: "world \<Rightarrow> world \<times> (py_error + int)" where
  "start_tinder_flow w =
     (let w1 = clear_transient_state w;
          w2 = respond [''tinder_age_prompt''] w1
      in (upd_ctx (\<lambda>c. c\<lparr>ud_tinder_media := Some []\<rparr>) w2, Inr TINDER_AGE))"

definition tinder_edit_menu :: "int \<Rightarrow> world \<Rightarrow> world \<times> (py_error + int)" where
  "tinder_edit_menu user_id w =
     (case get_profile user_id w of
        None \<Rightarrow> start_tinder_flow w
      | Some profile \<Rightarrow> (respond [''tinder_edit_prompt''] w, Inr END))"

text \<open>
  The profile a save goes by: the contest draft while a contest submission is being edited,
  the stored row otherwise.
\<close>

definition base_profile :: "int \<Rightarrow> world \<Rightarrow> profile_row option" where
  "base_profile user_id w =
     (if ud_edit_for_submit (ctx w) = Some True \<and> ud_contest_profile (ctx w) \<noteq> None
      then ud_contest_profile (ctx w) else get_profile user_id w)"

definition save_profile_from_context :: "env \<Rightarrow> int \<Rightarrow> nat \<Rightarrow> world \<Rightarrow> world" where
  "save_profile_from_context E user_id now w =
     (let c = ctx w;
          profile = base_profile user_id w;
          age = or_int (ud_tinder_age c) (Option.bind profile p_age);
          gender = or_str (ud_tinder_gender c) (Option.bind profile p_gender);
          interest = or_str (ud_tinder_interest c) (Option.bind profile p_interest);
          city = or_str (ud_tinder_city c) (Option.bind profile p_city);
          norm_city = or_str (or_str (ud_tinder_normalized_city c) (Option.bind profile p_normalized_city))
                        (Some (normalize_city E (case city of None \<Rightarrow> [] | Some s \<Rightarrow> s)));
          lat = or_none (ud_tinder_lat c) (Option.bind profile p_lat);
          lon = or_none (ud_tinder_lon c) (Option.bind profile p_lon);
          name = or_str (ud_tinder_name c) (Option.bind profile p_name);
          bio = or_str (ud_tinder_bio c) (Option.bind profile p_bio)
      in if ud_edit_for_submit c = Some True then
           upd_ctx (\<lambda>c. c\<lparr>ud_contest_profile := Some
             \<lparr>p_user_id = user_id, p_age = age, p_gender = gender, p_interest = interest,
              p_city = city, p_normalized_city = norm_city, p_lat = lat, p_lon = lon,
              p_name = name, p_bio = bio, p_active = Some 1, p_updated_at = 0\<rparr>\<rparr>) w
         else upsert_profile user_id age gender interest city lat lon name bio norm_city now w)"

text \<open>
  The end of a step in edit mode: save, leave edit mode, confirm, and go back to the edit
  menu.
\<close>

definition finish_edit :: "env \<Rightarrow> int \<Rightarrow> nat \<Rightarrow> world \<Rightarrow> world \<times> (py_error + int)" where
  "finish_edit E user_id now w =
     (let w1 = save_profile_from_context E user_id now w;
          w2 = upd_ctx (\<lambda>c. c\<lparr>ud_tinder_edit_mode := Some False\<rparr>) w1;
          w3 = respond [''tinder_saved''] w2
      in tinder_edit_menu user_id w3)"

definition tinder_age ::
  "env \<Rightarrow> int \<Rightarrow> string \<Rightarrow> world \<Rightarrow> world \<times> (py_error + int)" where
  "tinder_age E user_id msg w =
     (let text = str_strip E msg in
      if \<not> str_isdigit E text then (respond [''age_not_number''] w, Inr TINDER_AGE)
      else
        case str_int E text of
          None \<Rightarrow> (w, Inl ValueError)
        | Some age \<Rightarrow>
            if age < 18 \<or> age > 120 then (respond [''age_invalid''] w, Inr TINDER_AGE)
            else
              let w1 = upd_ctx (\<lambda>c. c\<lparr>ud_tinder_age := Some age\<rparr>) w
              in (respond [''tinder_gender_prompt''] w1, Inr TINDER_GENDER))"

text \<open>\<open>_, value = query.data.split(":")\<close>: exactly one colon, or the unpacking raises.\<close>

definition split_pair :: "string \<Rightarrow> py_error + string" where
  "split_pair data =
     (if length (filter (\<lambda>c. c = CHR '':'') data) = 1
      then Inr (tl (dropWhile (\<lambda>c. c \<noteq> CHR '':'') data))
      else Inl ValueError)"

definition tinder_gender_cb ::
  "env \<Rightarrow> int \<Rightarrow> string \<Rightarrow> nat \<Rightarrow> world \<Rightarrow> world \<times> (py_error + int)" where
  "tinder_gender_cb E user_id data now w =
     (case split_pair data of
        Inl e \<Rightarrow> (w, Inl e)
      | Inr gender_value \<Rightarrow>
          let w1 = upd_ctx (\<lambda>c. c\<lparr>ud_tinder_gender := Some gender_value\<rparr>) w;
              w2 = respond [''tinder_interest_prompt''] w1
          in if edit_mode w2 then finish_edit E user_id now w2
             else (w2, Inr TINDER_INTEREST))"

definition last_city_of :: "int \<Rightarrow> world \<Rightarrow> string option" where
  "last_city_of user_id w =
     or_str (ud_tinder_city (ctx w))
       (case get_profile user_id w of None \<Rightarrow> None | Some p \<Rightarrow> p_city p)"

definition interest_step ::
  "env \<Rightarrow> int \<Rightarrow> string \<Rightarrow> nat \<Rightarrow> world \<Rightarrow> world \<times> (py_error + int)" where
  "interest_step E user_id interest_value now w =
     (let w1 = upd_ctx (\<lambda>c. c\<lparr>ud_tinder_interest := Some interest_value\<rparr>) w;
          last_city = last_city_of user_id w1;
          w2 = upd_ctx (\<lambda>c. c\<lparr>ud_tinder_last_city_option := last_city\<rparr>) w1
      in if edit_mode w2 then finish_edit E user_id now w2
         else (respond [''tinder_city_prompt''] w2, Inr TINDER_CITY))"

definition tinder_interest_cb ::
  "env \<Rightarrow> int \<Rightarrow> string \<Rightarrow> nat \<Rightarrow> world \<Rightarrow> world \<times> (py_error + int)" where
  "tinder_interest_cb E user_id data now w =
     (case split_pair data of
        Inl e \<Rightarrow> (w, Inl e)
      | Inr interest_value \<Rightarrow> interest_step E user_id interest_value now w)"

text \<open>
  The \<open>if\<close>, \<open>elif\<close>, \<open>else\<close> of \<open>tinder_gender_text\<close> on the lowered text: the gender
  read from it, or \<open>None\<close> when the handler answers that the choice is invalid.
\<close>

definition gender_of_text :: "string \<Rightarrow> string option" where
  "gender_of_text text =
     (if py_in cyr_m text \<or> py_in ''male'' text \<or> py_in ''man'' text \<or> py_in cyr_ch text
        then Some ''Male''
      else if py_in ''f'' text \<or> py_in cyr_zhen text \<or> py_in ''female'' text
              \<or> py_in ''girl'' text \<or> py_in cyr_zh text
        then Some ''Female''
      else None)"

definition tinder_gender_text ::
  "env \<Rightarrow> int \<Rightarrow> string \<Rightarrow> nat \<Rightarrow> world \<Rightarrow> world \<times> (py_error + int)" where
  "tinder_gender_text E user_id msg now w =
     (let text = py_lower E msg;
          choice = gender_of_text text
      in case choice of
           None \<Rightarrow> (respond [''gender_invalid_choice''] w, Inr TINDER_GENDER)
         | Some gender_value \<Rightarrow>
             let w1 = upd_ctx (\<lambda>c. c\<lparr>ud_tinder_gender := Some gender_value\<rparr>) w
             in if edit_mode w1 then finish_edit E user_id now w1
                else
                  let w2 = respond [''tinder_interest_prompt''] w1
                  in if edit_mode w2 then finish_edit E user_id now w2
                     else (w2, Inr TINDER_INTEREST))"

definition tinder_interest_text ::
  "env \<Rightarrow> int \<Rightarrow> string \<Rightarrow> nat \<Rightarrow> world \<Rightarrow> world \<times> (py_error + int)" where
  "tinder_interest_text E user_id msg now w =
     (let text = py_lower E msg;
          interest_value =
            (if py_in cyr_muzh text \<or> py_in ''man'' text \<or> py_in cyr_muzhchiny text then ''Male''
             else if py_in cyr_zhen text \<or> py_in ''girl'' text \<or> py_in ''women'' text
                     \<or> py_in ''female'' text
               then ''Female''
             else ''Any'')
      in interest_step E user_id interest_value now w)"

text \<open>A message of the city step: a shared location, or a text.\<close>

datatype city_msg = Location real real | CityText string

definition tinder_city ::
  "env \<Rightarrow> int \<Rightarrow> city_msg \<Rightarrow> nat \<Rightarrow> world \<Rightarrow> world \<times> (py_error + int)" where
  "tinder_city E user_id m now w =
     (let w1 =
        (case m of
           Location lat lon \<Rightarrow>
             (case reverse_geocode_city E lat lon of (city_label, norm_label) \<Rightarrow>
                upd_ctx (\<lambda>c. c\<lparr>ud_tinder_lat := Some lat, ud_tinder_lon := Some lon,
                                ud_tinder_city := Some city_label,
                                ud_tinder_normalized_city := Some norm_label\<rparr>) w)
         | CityText msg \<Rightarrow>
             let text = str_strip E msg;
                 last_city = ud_tinder_last_city_option (ctx w);
                 chosen =
                   (case last_city of
                      None \<Rightarrow> text
                    | Some lc \<Rightarrow> if lc \<noteq> [] \<and> text = city_button_last E lc then lc else text)
             in upd_ctx (\<lambda>c. c\<lparr>ud_tinder_city := Some chosen,
                                ud_tinder_normalized_city := Some (normalize_city E chosen),
                                ud_tinder_lat := None, ud_tinder_lon := None\<rparr>) w)
      in if edit_mode w1 then finish_edit E user_id now w1
         else (respond [''tinder_name_prompt''] w1, Inr TINDER_NAME))"

definition tinder_name ::
  "env \<Rightarrow> int \<Rightarrow> string \<Rightarrow> nat \<Rightarrow> world \<Rightarrow> world \<times> (py_error + int)" where
  "tinder_name E user_id msg now w =
     (let w1 = upd_ctx (\<lambda>c. c\<lparr>ud_tinder_name := Some (str_strip E msg)\<rparr>) w
      in if edit_mode w1 then finish_edit E user_id now w1
         else (respond [''tinder_bio_prompt''] w1, Inr TINDER_BIO))"

definition tinder_bio ::
  "env \<Rightarrow> int \<Rightarrow> string \<Rightarrow> nat \<Rightarrow> world \<Rightarrow> world \<times> (py_error + int)" where
  "tinder_bio E user_id msg now w =
     (let w1 = upd_ctx (\<lambda>c. c\<lparr>ud_tinder_bio := Some (str_strip E msg)\<rparr>) w
      in if edit_mode w1 then finish_edit E user_id now w1
         else (respond [''tinder_media_prompt''] w1, Inr TINDER_MEDIA))"

definition store_media :: "string \<Rightarrow> string \<Rightarrow> world \<Rightarrow> bool \<times> world" where
  "store_media file_id kind w =
     (let media = (case ud_tinder_media (ctx w) of None \<Rightarrow> [] | Some xs \<Rightarrow> xs)
      in if length media \<ge> 3 then (False, w)
         else (True, upd_ctx (\<lambda>c. c\<lparr>ud_tinder_media := Some (media @ [(file_id, kind)])\<rparr>) w))"

definition tinder_confirm :: "world \<Rightarrow> world \<times> (py_error + int)" where
  "tinder_confirm w = (respond [''tinder_profile_line''] w, Inr TINDER_CONFIRM)"

text \<open>A message of the media step: a photo or a video with its file id, or something else.\<close>

datatype media_msg = Photo string | Video string | Other

definition tinder_media :: "media_msg \<Rightarrow> world \<Rightarrow> world \<times> (py_error + int)" where
  "tinder_media m w =
     (case (case m of Photo fid \<Rightarrow> Some (store_media fid ''photo'' w)
                    | Video fid \<Rightarrow> Some (store_media fid ''video'' w)
                    | Other \<Rightarrow> None) of
        None \<Rightarrow> (respond [''not_photo''] w, Inr TINDER_MEDIA)
      | Some (ok, w1) \<Rightarrow>
          if \<not> ok then tinder_confirm (respond [''Limit reached (3).''] w1)
          else if length (case ud_tinder_media (ctx w1) of None \<Rightarrow> [] | Some xs \<Rightarrow> xs) \<ge> 3
            then tinder_confirm w1
          else (respond [''tinder_media_more''] w1, Inr TINDER_MEDIA))"

text \<open>The test of \<open>tinder_media_text\<close> for a text that says the media are complete.\<close>

definition says_done :: "env \<Rightarrow> string \<Rightarrow> bool" where
  "says_done E text =
     (let done_label = py_lower E (done_button E)
      in py_in (py_lower E done_label) text
         \<or> text \<in> set [''done'', cyr_gotovo, cyr_gotovo @ check_mark,
                         cyr_gotovo @ '' '' @ check_mark, cyr_gotovo @ check_mark @ '' ''])"

definition tinder_media_text :: "env \<Rightarrow> string \<Rightarrow> world \<Rightarrow> world \<times> (py_error + int)" where
  "tinder_media_text E msg w =
     (let text = py_lower E (str_strip E msg)
      in if says_done E text
         then
           (if \<not> truthy_list (ud_tinder_media (ctx w))
            then (respond [''tinder_media_prompt''] w, Inr TINDER_MEDIA)
            else tinder_confirm (respond [''thumbs_up''] w))
         else (respond [''tinder_media_more''] w, Inr TINDER_MEDIA))"

subsection \<open>The terminal step\<close>

text \<open>
  \<open>send_next_candidate_card\<close>, which \<open>tinder_save_cb\<close> calls in vote mode: it reads the
  tables, notes the candidate shown, and sends one message.
\<close>

definition send_next_candidate_card :: "int \<Rightarrow> world \<Rightarrow> bool \<times> world" where
  "send_next_candidate_card user_id w =
     (case get_profile user_id w of
        None \<Rightarrow> (False, respond [''tinder_profile_needed''] w)
      | Some p \<Rightarrow>
          (case get_next_candidate user_id (p_gender p) (p_interest p)
                  (case p_normalized_city p of None \<Rightarrow> [] | Some s \<Rightarrow> s) w of
             None \<Rightarrow> (False, respond [''tinder_no_more_profiles''] w)
           | Some row \<Rightarrow>
               (True, respond [''tinder_profile_line'']
                        (upd_ctx (\<lambda>c. c\<lparr>ud_tinder_current_target := Some (p_user_id row)\<rparr>) w))))"

definition tinder_save_cb ::
  "env \<Rightarrow> int \<Rightarrow> string \<Rightarrow> nat \<Rightarrow> world \<Rightarrow> world \<times> (py_error + int)" where
  "tinder_save_cb E user_id full_name now w =
     (let c = ctx w;
          existing = get_profile user_id w;
          is_new_profile = (existing = None);
          age = or_int (ud_tinder_age c) (Option.bind existing p_age);
          gender = or_str (ud_tinder_gender c) (Option.bind existing p_gender);
          interest = or_str (ud_tinder_interest c) (Option.bind existing p_interest);
          city = or_str (ud_tinder_city c) (Option.bind existing p_city);
          norm_city = or_str (ud_tinder_normalized_city c)
                        (case existing of
                           None \<Rightarrow> Some (normalize_city E (case city of None \<Rightarrow> [] | Some s \<Rightarrow> s))
                         | Some p \<Rightarrow> p_normalized_city p);
          lat = or_none (ud_tinder_lat c) (Option.bind existing p_lat);
          lon = or_none (ud_tinder_lon c) (Option.bind existing p_lon);
          name = or_str (ud_tinder_name c)
                   (case existing of None \<Rightarrow> Some full_name | Some p \<Rightarrow> p_name p);
          bio = or_str (ud_tinder_bio c) (Option.bind existing p_bio)
      in
      if ud_edit_for_submit c = Some True then
        let w1 = upd_ctx (\<lambda>c. c\<lparr>ud_contest_profile := Some
                   \<lparr>p_user_id = user_id, p_age = age, p_gender = gender, p_interest = interest,
                    p_city = city, p_normalized_city = norm_city, p_lat = lat, p_lon = lon,
                    p_name = name, p_bio = bio, p_active = Some 1, p_updated_at = 0\<rparr>\<rparr>) w;
            w2 = (if truthy_list (ud_tinder_media c)
                  then upd_ctx (\<lambda>c. c\<lparr>ud_contest_media := ud_tinder_media c\<rparr>) w1 else w1);
            w3 = upd_ctx (\<lambda>c. c\<lparr>ud_tinder_media := None, ud_tinder_edit_mode := Some False\<rparr>) w2
        in tinder_edit_menu user_id (respond [''tinder_saved''] w3)
      else
        let w1 = upsert_profile user_id age gender interest city lat lon name bio norm_city now w;
            w2 = (if truthy_list (ud_tinder_media c)
                  then add_all_media user_id 0 (the (ud_tinder_media c))
                         (clear_profile_media user_id w1)
                  else w1);
            w3 = upd_ctx (\<lambda>c. c\<lparr>ud_tinder_media := None\<rparr>) w2;
            w4 = (if is_new_profile then increment_stat user_id ''profiles_created'' 1 w3
                  else increment_stat user_id ''profiles_updated'' 1 w3);
            w5 = (if is_new_profile then
                    (case get_referrer user_id w4 of
                       (Some referrer_id, Some credited) \<Rightarrow>
                         if referrer_id \<noteq> 0 \<and> credited = 0 then
                           respond [''referral_bonus_claimed'']
                             (increment_stat user_id ''referral_rewards'' 1
                               (increment_stat referrer_id ''referrals'' 1
                                 (mark_referral_credited user_id
                                   (fst (adjust_balance referrer_id REFERRAL_BONUS
                                     (fst (adjust_balance user_id REFERRAL_BONUS w4)))))))
                         else w4
                     | _ \<Rightarrow> w4)
                  else w4)
        in
        if edit_mode w5 then
          tinder_edit_menu user_id
            (respond [''tinder_saved'']
               (upd_ctx (\<lambda>c. c\<lparr>ud_tinder_edit_mode := Some False\<rparr>) w5))
        else if get_mode w5 = ''vote'' then
          (case send_next_candidate_card user_id w5 of
             (was_sent, w6) \<Rightarrow>
               (if was_sent then w6 else respond [''tinder_browse_empty_after_save''] w6, Inr END))
        else (respond [''tinder_saved''] w5, Inr END))"

subsection \<open>Worlds to run the handlers on\<close>

definition empty_user_data :: user_data where
  "empty_user_data =
     \<lparr>ud_bj_pending = None, ud_tinder_age = None, ud_tinder_gender = None,
      ud_tinder_interest = None, ud_tinder_city = None, ud_tinder_normalized_city = None,
      ud_tinder_lat = None, ud_tinder_lon = None, ud_tinder_name = None, ud_tinder_bio = None,
      ud_tinder_media = None, ud_tinder_edit_mode = None, ud_tinder_last_city_option = None,
      ud_edit_for_submit = None, ud_contest_profile = None, ud_contest_media = None,
      ud_tinder_current_target = None\<rparr>"

definition empty_world :: world where
  "empty_world =
     \<lparr>user_wallets = Map.empty, user_stats = Map.empty, blackjack_sessions = Map.empty,
      blackjack_boosts = Map.empty, settings = Map.empty, tinder_profiles = [],
      tinder_media = [], tinder_swipes = [], tinder_matches = [], referrals = Map.empty,
      ctx = empty_user_data, sent = []\<rparr>"

definition wallet_world :: "int \<Rightarrow> int \<Rightarrow> world" where
  "wallet_world user_id b = empty_world\<lparr>user_wallets := [user_id \<mapsto> SqlInteger b]\<rparr>"

definition session_world :: "int \<Rightarrow> int \<Rightarrow> bj_session \<Rightarrow> world" where
  "session_world user_id b s = (wallet_world user_id b)\<lparr>blackjack_sessions := [user_id \<mapsto> s]\<rparr>"

definition pending_world :: "int \<Rightarrow> int \<Rightarrow> world" where
  "pending_world user_id b =
     (wallet_world user_id b)\<lparr>ctx := empty_user_data\<lparr>ud_bj_pending := Some True\<rparr>\<rparr>"

text \<open>A stored round whose deck has run out, and one in play after a bet of 10.\<close>

definition stuck_session :: bj_session where
  "stuck_session = \<lparr>s_deck = [], s_player_hand = [''10S'', ''5H''],
     s_dealer_hand = [''9C'', ''7D''], s_bet = 10, s_status = ''active''\<rparr>"

definition open_session :: bj_session where
  "open_session = \<lparr>s_deck = take 48 unshuffled_deck, s_player_hand = [''KS'', ''KC''],
     s_dealer_hand = [''KD'', ''KH''], s_bet = 10, s_status = ''active''\<rparr>"

text \<open>User 2 has liked user 1; user 1 has not swiped yet.\<close>

definition liked_world :: world where
  "liked_world = empty_world\<lparr>tinder_swipes :=
     [\<lparr>sw_id = 1, sw_user_id = 2, sw_target_id = 1, sw_status = ''like''\<rparr>]\<rparr>"

text \<open>
  Two women looking for men: user 2 in Kyiv, updated at time 1, and user 3 in Lviv, updated
  at time 2. The actor of the examples is user 1, a man in Kyiv looking for women.
\<close>

definition profile_of :: "int \<Rightarrow> string \<Rightarrow> nat \<Rightarrow> profile_row" where
  "profile_of user_id city updated =
     \<lparr>p_user_id = user_id, p_age = Some 25, p_gender = Some ''Female'',
      p_interest = Some ''Male'', p_city = Some city, p_normalized_city = Some city,
      p_lat = None, p_lon = None, p_name = Some ''N'', p_bio = Some ''B'', p_active = Some 1,
      p_updated_at = updated\<rparr>"

definition two_cities_world :: world where
  "two_cities_world = empty_world\<lparr>tinder_profiles :=
     [profile_of 2 ''kyiv'' 1, profile_of 3 ''lviv'' 2]\<rparr>"

text \<open>The balance of a user, as \<open>get_balance\<close> reads it.\<close>

text \<open>
  The tables of the database, without the conversation context and the messages sent: what
  is in durable storage.
\<close>

definition durable_state where
  "durable_state w =
     (user_wallets w, user_stats w, blackjack_sessions w, blackjack_boosts w, settings w,
      tinder_profiles w, world.tinder_media w, tinder_swipes w, tinder_matches w, referrals w)"

text \<open>
  An environment to run the steps in: the string functions on 7-bit text,
  \<open>normalize_city\<close> of \<open>helpers.py\<close> on 7-bit text (lower case, every run of characters
  that are not letters or digits becomes one space, none at the ends), a geocoder whose
  service is out of reach at latitude and longitude 0, and two labels.
\<close>

definition ascii_lower :: "char \<Rightarrow> char" where
  "ascii_lower c =
     (let n = (of_char c :: nat) in if 65 \<le> n \<and> n \<le> 90 then char_of (n + 32) else c)"

definition ascii_isalnum :: "char \<Rightarrow> bool" where
  "ascii_isalnum c =
     (let n = (of_char c :: nat)
      in (48 \<le> n \<and> n \<le> 57) \<or> (65 \<le> n \<and> n \<le> 90) \<or> (97 \<le> n \<and> n \<le> 122))"

fun collapse_spaces :: "bool \<Rightarrow> string \<Rightarrow> string" where
  "collapse_spaces prev_space [] = []"
| "collapse_spaces prev_space (c # cs) =
     (if ascii_isalnum c then c # collapse_spaces False cs
      else if prev_space then collapse_spaces True cs
      else CHR '' '' # collapse_spaces True cs)"

definition ascii_normalize_city :: "string \<Rightarrow> string" where
  "ascii_normalize_city s =
     (if s = [] then []
      else py_strip (collapse_spaces False (map ascii_lower (py_strip s))))"

definition ascii_env :: env where
  "ascii_env =
     \<lparr>str_strip = py_strip, str_isdigit = py_isdigit, str_int = py_int,
      py_lower = map ascii_lower, normalize_city = ascii_normalize_city,
      reverse_geocode_city = (\<lambda>lat lon. (''0.0000,0.0000'', ''geo:0.0:0.0'')),
      city_button_last = (\<lambda>city. city), done_button = ''Done''\<rparr>"

text \<open>A user without a profile row whose draft is complete, and a user who edits a stored profile.\<close>

definition draft_world :: world where
  "draft_world =
     empty_world\<lparr>ctx := empty_user_data\<lparr>ud_tinder_age := Some 25, ud_tinder_gender := Some ''Male'',
       ud_tinder_interest := Some ''Female'', ud_tinder_city := Some ''Kyiv'',
       ud_tinder_normalized_city := Some ''kyiv'', ud_tinder_name := Some ''Al'',
       ud_tinder_bio := Some ''hi'', ud_tinder_media := Some []\<rparr>\<rparr>"

definition editing_world :: world where
  "editing_world =
     empty_world\<lparr>tinder_profiles := [profile_of 1 ''kyiv'' 1],
       ctx := empty_user_data\<lparr>ud_tinder_edit_mode := Some True\<rparr>\<rparr>"

definition read_balance :: "int \<Rightarrow> world \<Rightarrow> sql_number" where
  "read_balance user_id w = fst (get_balance user_id w)"

section \<open>Properties of the card engine\<close>

lemma hand_sum_those:
  "hand_sum hand t a =
     (case those (map card_points hand) of
        None \<Rightarrow> Inl ValueError
      | Some pts \<Rightarrow> Inr (t + sum_list pts, a + length (filter is_ace hand)))"
proof (induction hand arbitrary: t a)
  case Nil
  then show ?case by simp
next
  case (Cons cd rest)
  show ?case
    by (cases "py_int (butlast cd)")
       (auto simp: Cons.IH card_points_def is_ace_def Let_def split: option.splits)
qed

lemma adjust_aces_result:
  "adjust_aces t a = (t', a') \<Longrightarrow>
     a' \<le> a \<and> t' = t - 10 * int (a - a') \<and> (t' \<le> 21 \<or> a' = 0) \<and> (a' < a \<longrightarrow> 21 < t' + 10)"
proof (induction t a rule: adjust_aces.induct)
  case (1 tot aces)
  show ?case
  proof (cases "tot > 21 \<and> aces \<noteq> 0")
    case True
    then have rec: "adjust_aces (tot - 10) (aces - 1) = (t', a')"
      using "1.prems" by (simp add: adjust_aces.simps [of tot aces])
    from "1.IH" [OF True rec] True show ?thesis
      by (auto simp: algebra_simps of_nat_diff)
  next
    case False
    then have "adjust_aces tot aces = (tot, aces)"
      by (auto simp: adjust_aces.simps [of tot aces])
    with "1.prems" False show ?thesis by auto
  qed
qed

text \<open>
  Claim C3. \<open>hand_value\<close> counts a face card as 10, an ace as 11 and any other card as
  its number; it then takes 10 off for each of \<open>k\<close> demoted aces, where the loop stops as
  soon as the total is at most 21 or no ace is left at 11 (so the total is at most 21 or
  \<open>k\<close> is the number of aces), and demotes only while the total exceeds 21 (so before the
  last demotion it exceeded 21). The flag says that an ace still counts 11 (\<open>k\<close> is below
  the number of aces). On ace, ace, nine the result is 21 and soft; on ace, ace, king it is 12
  and hard.
\<close>

theorem hand_value_demotes_aces:
  "(those (map card_points hand) = Some pts \<longrightarrow>
     (\<exists>k \<le> length (filter is_ace hand).
        hand_value hand = Inr (sum_list pts - 10 * int k, k < length (filter is_ace hand))
        \<and> (sum_list pts - 10 * int k \<le> 21 \<or> k = length (filter is_ace hand))
        \<and> (0 < k \<longrightarrow> 21 < sum_list pts - 10 * int k + 10)))
   \<and> hand_value [''AS'', ''AH'', ''9C''] = Inr (21, True)
   \<and> hand_value [''AS'', ''AH'', ''KC''] = Inr (12, False)"
proof (intro conjI impI)
  assume pts: "those (map card_points hand) = Some pts"
  let ?n = "length (filter is_ace hand)"
  obtain t' a' where adj: "adjust_aces (sum_list pts) ?n = (t', a')"
    by (cases "adjust_aces (sum_list pts) ?n")
  from adjust_aces_result [OF adj]
  have le: "a' \<le> ?n" and t': "t' = sum_list pts - 10 * int (?n - a')"
    and stop: "t' \<le> 21 \<or> a' = 0" and needed: "a' < ?n \<longrightarrow> 21 < t' + 10"
    by auto
  have hv: "hand_value hand = Inr (t', 0 < a')"
    by (simp add: hand_value_def hand_sum_those pts adj)
  show "\<exists>k \<le> ?n. hand_value hand = Inr (sum_list pts - 10 * int k, k < ?n)
        \<and> (sum_list pts - 10 * int k \<le> 21 \<or> k = ?n)
        \<and> (0 < k \<longrightarrow> 21 < sum_list pts - 10 * int k + 10)"
  proof (intro exI [of _ "?n - a'"] conjI)
    show "?n - a' \<le> ?n" by simp
    show "hand_value hand = Inr (sum_list pts - 10 * int (?n - a'), ?n - a' < ?n)"
      using hv t' le stop by (cases "a' = 0") auto
    show "sum_list pts - 10 * int (?n - a') \<le> 21 \<or> ?n - a' = ?n"
      using stop t' by auto
    show "0 < ?n - a' \<longrightarrow> 21 < sum_list pts - 10 * int (?n - a') + 10"
      using needed t' by auto
  qed
next
  show "hand_value [''AS'', ''AH'', ''9C''] = Inr (21, True)" by code_simp
next
  show "hand_value [''AS'', ''AH'', ''KC''] = Inr (12, False)" by code_simp
qed

theorem hand_value_demotes_aces_witness:
  "those (map card_points [''AS'', ''7H'', ''KC'']) = Some [11, 7, 10]
   \<and> hand_value [''AS'', ''7H'', ''KC''] = Inr (18, False)"
proof -
  have pts: "those (map card_points [''AS'', ''7H'', ''KC'']) = Some [11, 7, 10]"
    by code_simp
  have n: "length (filter is_ace [''AS'', ''7H'', ''KC'']) = 1"
    by code_simp
  from hand_value_demotes_aces [of "[''AS'', ''7H'', ''KC'']" "[11, 7, 10]"] pts
  obtain k where "k \<le> 1" and hv: "hand_value [''AS'', ''7H'', ''KC''] = Inr (28 - 10 * int k, k < 1)"
    and "28 - 10 * int k \<le> 21 \<or> k = 1"
    unfolding n by auto
  then have "k = 1" by auto
  with hv pts show ?thesis by simp
qed

lemma dealer_play_stops:
  "\<not> dealer_draws hand \<Longrightarrow> hand_value hand = Inr (tot, soft) \<Longrightarrow> dealer_play hand deck = Inr (hand, deck)"
  by (auto simp: dealer_play.simps [of hand deck] dealer_draws_def)

lemma dealer_play_draws:
  "dealer_draws hand \<Longrightarrow> dealer_play hand (deck @ [c]) = dealer_play (hand @ [c]) deck"
  by (auto simp: dealer_play.simps [of hand "deck @ [c]"] dealer_draws_def draw_card_def
           split: sum.splits)

lemma dealer_play_empty:
  "dealer_draws hand \<Longrightarrow> dealer_play hand [] = Inl IndexError"
  by (auto simp: dealer_play.simps [of hand "[]"] dealer_draws_def draw_card_def
           split: sum.splits)

lemma dealer_play_trace:
  "dealer_play hand deck = Inr (hand', deck') \<Longrightarrow>
     \<exists>drawn. hand' = hand @ drawn \<and> deck = deck' @ rev drawn
       \<and> (\<forall>k < length drawn. dealer_draws (hand @ take k drawn))
       \<and> \<not> dealer_draws hand'"
proof (induction deck arbitrary: hand rule: rev_induct)
  case Nil
  then show ?case
    by (auto simp: dealer_play.simps [of hand "[]"] dealer_draws_def draw_card_def
             split: sum.splits if_splits)
next
  case (snoc c deck)
  show ?case
  proof (cases "dealer_draws hand")
    case True
    with snoc.prems have "dealer_play (hand @ [c]) deck = Inr (hand', deck')"
      by (simp add: dealer_play_draws)
    from snoc.IH [OF this] obtain drawn where
      h: "hand' = (hand @ [c]) @ drawn" and d: "deck = deck' @ rev drawn"
      and w: "\<forall>k < length drawn. dealer_draws ((hand @ [c]) @ take k drawn)"
      and s: "\<not> dealer_draws hand'"
      by blast
    have "\<forall>k < length (c # drawn). dealer_draws (hand @ take k (c # drawn))"
    proof (intro allI impI)
      fix k assume k: "k < length (c # drawn)"
      show "dealer_draws (hand @ take k (c # drawn))"
      proof (cases k)
        case 0
        with True show ?thesis by simp
      next
        case (Suc j)
        with k w show ?thesis by simp
      qed
    qed
    with h d s show ?thesis
      by (intro exI [of _ "c # drawn"]) simp
  next
    case False
    with snoc.prems have "hand' = hand \<and> deck' = deck @ [c]"
      by (auto simp: dealer_play.simps [of hand "deck @ [c]"] dealer_draws_def
               split: sum.splits if_splits)
    with False show ?thesis
      by (intro exI [of _ "[]"]) simp
  qed
qed

text \<open>
  Claim C7. \<open>dealer_play\<close> draws exactly while the total is below 17 or is a soft 17: on
  such a hand it pops the top card of the deck and goes on with the longer hand (on an empty
  deck the pop raises), on any other hand it returns hand and deck as they are. A run that
  returns has drawn the cards \<open>drawn\<close> off the top of the deck, every hand on the way had
  to draw, and the final hand does not. Ten and seven (a hard 17) draws nothing; ace and six
  (a soft 17) draws the next card before it looks again.
\<close>

theorem dealer_play_policy:
  "(hand_value hand = Inr (tot, soft) \<longrightarrow>
      (if tot < 17 \<or> (tot = 17 \<and> soft)
       then dealer_play hand [] = Inl IndexError
          \<and> dealer_play hand (deck @ [c]) = dealer_play (hand @ [c]) deck
       else dealer_play hand deck = Inr (hand, deck)))
   \<and> (dealer_play hand deck = Inr (hand', deck') \<longrightarrow>
        (\<exists>drawn. hand' = hand @ drawn \<and> deck = deck' @ rev drawn
           \<and> (\<forall>k < length drawn. dealer_draws (hand @ take k drawn))
           \<and> \<not> dealer_draws hand'))
   \<and> hand_value [''10S'', ''7H''] = Inr (17, False)
   \<and> dealer_play [''10S'', ''7H''] deck = Inr ([''10S'', ''7H''], deck)
   \<and> hand_value [''AS'', ''6C''] = Inr (17, True)
   \<and> dealer_play [''AS'', ''6C''] (deck @ [c]) = dealer_play [''AS'', ''6C'', c] deck"
proof -
  have hard: "hand_value [''10S'', ''7H''] = Inr (17, False)" by code_simp
  have soft: "hand_value [''AS'', ''6C''] = Inr (17, True)" by code_simp
  have "\<not> dealer_draws [''10S'', ''7H'']" by (simp add: dealer_draws_def hard)
  then have p3: "dealer_play [''10S'', ''7H''] deck = Inr ([''10S'', ''7H''], deck)"
    using hard by (rule dealer_play_stops)
  have "dealer_draws [''AS'', ''6C'']" by (simp add: dealer_draws_def soft)
  then have p4: "dealer_play [''AS'', ''6C''] (deck @ [c]) = dealer_play [''AS'', ''6C'', c] deck"
    using dealer_play_draws [of "[''AS'', ''6C'']" deck c] by simp
  have p1: "hand_value hand = Inr (tot, soft) \<longrightarrow>
      (if tot < 17 \<or> (tot = 17 \<and> soft)
       then dealer_play hand [] = Inl IndexError
          \<and> dealer_play hand (deck @ [c]) = dealer_play (hand @ [c]) deck
       else dealer_play hand deck = Inr (hand, deck))"
  proof
    assume hv: "hand_value hand = Inr (tot, soft)"
    show "if tot < 17 \<or> (tot = 17 \<and> soft)
       then dealer_play hand [] = Inl IndexError
          \<and> dealer_play hand (deck @ [c]) = dealer_play (hand @ [c]) deck
       else dealer_play hand deck = Inr (hand, deck)"
    proof (cases "tot < 17 \<or> (tot = 17 \<and> soft)")
      case True
      then have "dealer_draws hand" by (simp add: dealer_draws_def hv)
      with True show ?thesis by (simp add: dealer_play_draws dealer_play_empty)
    next
      case False
      then have "\<not> dealer_draws hand" by (simp add: dealer_draws_def hv)
      with False hv show ?thesis by (simp add: dealer_play_stops)
    qed
  qed
  have p2: "dealer_play hand deck = Inr (hand', deck') \<longrightarrow>
        (\<exists>drawn. hand' = hand @ drawn \<and> deck = deck' @ rev drawn
           \<and> (\<forall>k < length drawn. dealer_draws (hand @ take k drawn))
           \<and> \<not> dealer_draws hand')"
    using dealer_play_trace by blast
  from p1 p2 hard p3 soft p4 show ?thesis by blast
qed

theorem dealer_play_policy_witness:
  "hand_value [''AS'', ''6C''] = Inr (17, True)
   \<and> dealer_play [''AS'', ''6C''] [] = Inl IndexError
   \<and> dealer_play [''AS'', ''6C''] ([''2H''] @ [''KD'']) = Inr ([''AS'', ''6C'', ''KD''], [''2H''])
   \<and> [''AS'', ''6C'', ''KD''] = [''AS'', ''6C''] @ [''KD'']
   \<and> \<not> dealer_draws [''AS'', ''6C'', ''KD'']
   \<and> dealer_draws [''AS'', ''6C'']"
proof -
  have hv: "hand_value [''AS'', ''6C''] = Inr (17, True)" by code_simp
  have run: "dealer_play [''AS'', ''6C''] ([''2H''] @ [''KD'']) = Inr ([''AS'', ''6C'', ''KD''], [''2H''])"
    by code_simp
  have d1: "\<not> dealer_draws [''AS'', ''6C'', ''KD'']" by code_simp
  have d2: "dealer_draws [''AS'', ''6C'']" by code_simp
  from dealer_play_policy [of "[''AS'', ''6C'']" 17 True "[''2H'']" "''KD''" "[''AS'', ''6C'', ''KD'']" "[''2H'']"]
  have "dealer_play [''AS'', ''6C''] [] = Inl IndexError"
    using hv by simp
  with hv run d1 d2 show ?thesis by simp
qed

section \<open>Properties of the blackjack session manager\<close>

subsection \<open>What the wallet operations leave alone\<close>

lemma get_balance_eq: "get_balance u w = (read_balance u w, ensure_wallet u w)"
  by (simp add: read_balance_def get_balance_def Let_def)

lemma ensure_wallet_idem [simp]: "ensure_wallet u (ensure_wallet u w) = ensure_wallet u w"
  by (simp add: ensure_wallet_def split: option.splits)

lemma ensure_wallet_present: "user_wallets w u \<noteq> None \<Longrightarrow> ensure_wallet u w = w"
  by (auto simp: ensure_wallet_def split: option.splits)

lemma read_balance_ensure [simp]: "read_balance u (ensure_wallet v w) = read_balance u w"
  by (simp add: read_balance_def get_balance_def ensure_wallet_def Let_def split: option.splits)

lemma read_balance_respond [simp]: "read_balance u (respond m w) = read_balance u w"
  by (simp add: read_balance_def get_balance_def respond_def ensure_wallet_def Let_def
           split: option.splits)

lemma read_balance_clear [simp]:
  "read_balance u (clear_blackjack_session v w) = read_balance u w"
  by (simp add: read_balance_def get_balance_def clear_blackjack_session_def ensure_wallet_def
                Let_def split: option.splits)

lemma read_balance_stat [simp]:
  "read_balance u (increment_stat v f d w) = read_balance u w"
  by (simp add: read_balance_def get_balance_def increment_stat_def ensure_wallet_def
                Let_def split: option.splits)

lemma read_balance_ctx [simp]:
  "read_balance u (w\<lparr>ctx := c\<rparr>) = read_balance u w"
  by (simp add: read_balance_def get_balance_def ensure_wallet_def Let_def split: option.splits)

lemma read_balance_sessions [simp]:
  "read_balance u (w\<lparr>blackjack_sessions := m\<rparr>) = read_balance u w"
  by (simp add: read_balance_def get_balance_def ensure_wallet_def Let_def split: option.splits)

lemma sessions_ensure [simp]: "blackjack_sessions (ensure_wallet u w) = blackjack_sessions w"
  by (simp add: ensure_wallet_def split: option.splits)

lemma stats_ensure [simp]: "user_stats (ensure_wallet u w) = user_stats w"
  by (simp add: ensure_wallet_def split: option.splits)

lemma ctx_ensure [simp]: "ctx (ensure_wallet u w) = ctx w"
  by (simp add: ensure_wallet_def split: option.splits)

lemma sent_ensure [simp]: "sent (ensure_wallet u w) = sent w"
  by (simp add: ensure_wallet_def split: option.splits)

lemma boost_ensure [simp]: "get_blackjack_boost u (ensure_wallet v w) = get_blackjack_boost u w"
  by (simp add: get_blackjack_boost_def ensure_wallet_def split: option.splits)

lemma sessions_respond [simp]: "blackjack_sessions (respond m w) = blackjack_sessions w"
  by (simp add: respond_def)

lemma sent_respond [simp]: "sent (respond m w) = sent w @ [m]"
  by (simp add: respond_def)

lemma sent_clear [simp]: "sent (clear_blackjack_session u w) = sent w"
  by (simp add: clear_blackjack_session_def)

lemma sessions_clear [simp]:
  "blackjack_sessions (clear_blackjack_session u w) = (blackjack_sessions w)(u := None)"
  by (simp add: clear_blackjack_session_def)

lemma adjust_balance_bound:
  "in_int64 d \<Longrightarrow> adjust_balance u d w = (credit u d w, None)"
  by (simp add: credit_def adjust_balance_def Let_def split: option.splits)

lemma adjust_balance_unbound:
  "\<not> in_int64 d \<Longrightarrow> adjust_balance u d w = (ensure_wallet u w, Some OverflowError)"
  by (simp add: adjust_balance_def Let_def)

lemma sessions_credit [simp]: "blackjack_sessions (credit u d w) = blackjack_sessions w"
  by (simp add: credit_def adjust_balance_def Let_def split: option.splits)

lemma stats_credit [simp]: "user_stats (credit u d w) = user_stats w"
  by (simp add: credit_def adjust_balance_def Let_def split: option.splits)

lemma sent_credit [simp]: "sent (credit u d w) = sent w"
  by (simp add: credit_def adjust_balance_def Let_def split: option.splits)

lemma boosts_ensure [simp]: "blackjack_boosts (ensure_wallet u w) = blackjack_boosts w"
  by (simp add: ensure_wallet_def split: option.splits)

lemma boosts_credit [simp]: "blackjack_boosts (credit u d w) = blackjack_boosts w"
  by (simp add: credit_def adjust_balance_def Let_def split: option.splits)

lemma boost_credit [simp]: "get_blackjack_boost u (credit v d w) = get_blackjack_boost u w"
  by (simp add: get_blackjack_boost_def)

lemma read_balance_credit:
  assumes "read_balance u w = SqlInteger B" and "in_int64 d" and "in_int64 (B + d)"
  shows "read_balance u (credit u d w) = SqlInteger (B + d)"
  using assms
  by (auto simp: credit_def adjust_balance_def read_balance_def get_balance_def
                 ensure_wallet_def sql_add_def Let_def split: option.splits)

lemma save_session_bound:
  "in_int64 b \<Longrightarrow>
     save_blackjack_session u dk ph dh b st w =
       Inr (w\<lparr>blackjack_sessions := (blackjack_sessions w)(u \<mapsto>
              \<lparr>s_deck = dk, s_player_hand = ph, s_dealer_hand = dh, s_bet = b, s_status = st\<rparr>)\<rparr>)"
  by (simp add: save_blackjack_session_def)

text \<open>
  Claim C10. For a user with no stored blackjack session, hit, stand and double each send
  the message that no game is active and return. Building the keyboard of that message
  makes sure of the user's wallet row, so a user without a row gets one with the 20 points
  a first reading of the balance would give anyway; the balance of every user reads as
  before, and statistics, sessions and context are as they were, with the one message added
  to what was sent. A user who has a wallet row finds the world unchanged but for that
  message. No card is drawn, nothing is debited and nothing is paid.
\<close>

theorem stale_action_is_noop:
  "blackjack_sessions w user_id = None \<Longrightarrow>
     blackjack_hit user_id w = (respond [''no_active_game''] (ensure_wallet user_id w), None)
     \<and> blackjack_stand user_id rnd w = (respond [''no_active_game''] (ensure_wallet user_id w), None)
     \<and> blackjack_double user_id rnd w = (respond [''no_active_game''] (ensure_wallet user_id w), None)
     \<and> read_balance u (respond [''no_active_game''] (ensure_wallet user_id w)) = read_balance u w
     \<and> user_stats (respond [''no_active_game''] (ensure_wallet user_id w)) = user_stats w
     \<and> blackjack_sessions (respond [''no_active_game''] (ensure_wallet user_id w))
         = blackjack_sessions w
     \<and> ctx (respond [''no_active_game''] (ensure_wallet user_id w)) = ctx w
     \<and> sent (respond [''no_active_game''] (ensure_wallet user_id w))
         = sent w @ [[''no_active_game'']]
     \<and> (respond [''no_active_game''] (ensure_wallet user_id w))
          \<lparr>user_wallets := user_wallets w, sent := sent w\<rparr> = w
     \<and> (user_wallets w user_id \<noteq> None \<longrightarrow>
          respond [''no_active_game''] (ensure_wallet user_id w)
            = w\<lparr>sent := sent w @ [[''no_active_game'']]\<rparr>)"
proof -
  assume none: "blackjack_sessions w user_id = None"
  let ?w' = "respond [''no_active_game''] (ensure_wallet user_id w)"
  have run: "blackjack_hit user_id w = (?w', None)" "blackjack_stand user_id rnd w = (?w', None)"
    "blackjack_double user_id rnd w = (?w', None)"
    using none
    by (simp_all add: blackjack_hit_def blackjack_stand_def blackjack_double_def
                      load_blackjack_session_def game_menu_markup_def)
  have bal: "read_balance u ?w' = read_balance u w" by simp
  have same: "user_stats ?w' = user_stats w"
    "blackjack_sessions ?w' = blackjack_sessions w" "ctx ?w' = ctx w"
    "sent ?w' = sent w @ [[''no_active_game'']]"
    by (simp_all add: respond_def)
  have rest: "?w'\<lparr>user_wallets := user_wallets w, sent := sent w\<rparr> = w"
    by (simp add: respond_def ensure_wallet_def split: option.splits)
  have present: "user_wallets w user_id \<noteq> None \<longrightarrow>
      ?w' = w\<lparr>sent := sent w @ [[''no_active_game'']]\<rparr>"
    by (auto simp: respond_def ensure_wallet_def split: option.splits)
  from run bal same rest present show ?thesis by blast
qed

theorem stale_action_is_noop_witness:
  "blackjack_sessions empty_world 7 = None
   \<and> user_wallets empty_world 7 = None
   \<and> read_balance 7 empty_world = SqlInteger 20
   \<and> snd (blackjack_hit 7 empty_world) = None
   \<and> read_balance 7 (fst (blackjack_hit 7 empty_world)) = SqlInteger 20
   \<and> user_wallets (fst (blackjack_double 7 0 empty_world)) 7 = Some (SqlInteger 20)
   \<and> blackjack_sessions (fst (blackjack_stand 7 0 empty_world)) = Map.empty
   \<and> sent (fst (blackjack_stand 7 0 empty_world)) = [[''no_active_game'']]
   \<and> blackjack_sessions (wallet_world 7 30) 7 = None
   \<and> user_wallets (wallet_world 7 30) 7 \<noteq> None
   \<and> blackjack_hit 7 (wallet_world 7 30)
       = ((wallet_world 7 30)\<lparr>sent := [[''no_active_game'']]\<rparr>, None)"
proof -
  have none: "blackjack_sessions empty_world 7 = None" "user_wallets empty_world 7 = None"
    "sent empty_world = []" "blackjack_sessions empty_world = Map.empty"
    by (simp_all add: empty_world_def)
  have bal: "read_balance 7 empty_world = SqlInteger 20"
    by (simp add: read_balance_def get_balance_def ensure_wallet_def empty_world_def)
  have row: "user_wallets (ensure_wallet 7 empty_world) 7 = Some (SqlInteger 20)"
    by (simp add: ensure_wallet_def empty_world_def)
  have none': "blackjack_sessions (wallet_world 7 30) 7 = None"
    "user_wallets (wallet_world 7 30) 7 \<noteq> None" "sent (wallet_world 7 30) = []"
    by (simp_all add: wallet_world_def empty_world_def)
  from stale_action_is_noop [OF none(1), of 0 7] stale_action_is_noop [OF none'(1), of 0 7]
  show ?thesis
    by (simp add: none bal row none' respond_def)
qed

subsection \<open>A shuffled deck deals\<close>

lemma length_unshuffled_deck: "length unshuffled_deck = 52"
  by (simp add: unshuffled_deck_def ranks_def suits_def)

lemma unshuffled_deck_valued: "\<forall>c \<in> set unshuffled_deck. card_points c \<noteq> None"
  by code_simp

lemma shuffled_length: "is_shuffled_deck s \<Longrightarrow> length s = 52"
  using length_unshuffled_deck mset_eq_length [of s unshuffled_deck]
  by (simp add: is_shuffled_deck_def)

lemma shuffled_set: "is_shuffled_deck s \<Longrightarrow> set s = set unshuffled_deck"
  using mset_eq_setD [of s unshuffled_deck] by (simp add: is_shuffled_deck_def)

lemma draw_card_nonempty:
  "dk \<noteq> [] \<Longrightarrow> draw_card dk = Inr (last dk, butlast dk)"
  by (simp add: draw_card_def)

lemma deal_hands_long:
  assumes "4 \<le> length s"
  shows "\<exists>ph dh dk. deal_hands s = Inr (ph, dh, dk) \<and> length ph = 2 \<and> length dh = 2
           \<and> set ph \<subseteq> set s \<and> set dh \<subseteq> set s \<and> length dk + 4 = length s"
proof -
  obtain r c1 c2 c3 c4 where s: "s = r @ [c4, c3, c2, c1]"
  proof -
    from assms obtain c1 s1 where 1: "s = s1 @ [c1]" and l1: "3 \<le> length s1"
      by (cases s rule: rev_cases) auto
    from l1 obtain c2 s2 where 2: "s1 = s2 @ [c2]" and l2: "2 \<le> length s2"
      by (cases s1 rule: rev_cases) auto
    from l2 obtain c3 s3 where 3: "s2 = s3 @ [c3]" and l3: "1 \<le> length s3"
      by (cases s2 rule: rev_cases) auto
    from l3 obtain c4 s4 where 4: "s3 = s4 @ [c4]"
      by (cases s3 rule: rev_cases) auto
    from 1 2 3 4 have "s = s4 @ [c4, c3, c2, c1]" by simp
    then show ?thesis by (rule that)
  qed
  have "deal_hands s = Inr ([c1, c2], [c3, c4], r)"
    unfolding s deal_hands_def
    by (simp add: draw_card_def butlast_append)
  with s show ?thesis by auto
qed

lemma those_Some:
  "(\<forall>x \<in> set xs. f x \<noteq> None) \<Longrightarrow> \<exists>ys. those (map f xs) = Some ys"
  by (induction xs) (auto split: option.splits)

lemma hand_value_valued:
  assumes "\<forall>c \<in> set h. card_points c \<noteq> None"
  shows "\<exists>t s. hand_value h = Inr (t, s)"
proof -
  from those_Some [OF assms] obtain pts where "those (map card_points h) = Some pts" ..
  then show ?thesis
    by (simp add: hand_value_def hand_sum_those split: prod.splits)
qed

lemma card_points_nonempty: "card_points c \<noteq> None \<Longrightarrow> c \<noteq> []"
  by (auto simp: card_points_def py_int_def)

lemma shuffled_deal:
  assumes "is_shuffled_deck shuffled"
  shows "\<exists>ph dh dk pbj dbj. deal_hands shuffled = Inr (ph, dh, dk)
           \<and> is_blackjack ph = Inr pbj \<and> is_blackjack dh = Inr dbj
           \<and> (\<forall>w. send_blackjack_state ph dh w =
               (respond [''blackjack_title'', ''player_hand'', ''dealer_shows'', ''bet_set''] w, None))"
proof -
  from shuffled_length [OF assms] have "4 \<le> length shuffled" by simp
  from deal_hands_long [OF this] obtain ph dh dk where
    deal: "deal_hands shuffled = Inr (ph, dh, dk)" and lp: "length ph = 2" and ld: "length dh = 2"
    and sp: "set ph \<subseteq> set shuffled" and sd: "set dh \<subseteq> set shuffled"
    by blast
  have valued: "\<forall>c \<in> set shuffled. card_points c \<noteq> None"
    using unshuffled_deck_valued shuffled_set [OF assms] by simp
  from valued sp have vp: "\<forall>c \<in> set ph. card_points c \<noteq> None" by blast
  from valued sd have vd: "\<forall>c \<in> set dh. card_points c \<noteq> None" by blast
  from hand_value_valued [OF vp] obtain pt ps where hp: "hand_value ph = Inr (pt, ps)" by blast
  from hand_value_valued [OF vd] obtain dt ds where hd: "hand_value dh = Inr (dt, ds)" by blast
  from ld have ne: "dh \<noteq> []" by auto
  then have "hd dh \<in> set dh" by simp
  with vd have "hd dh \<noteq> []" using card_points_nonempty by blast
  with ne hp have "\<forall>w. send_blackjack_state ph dh w =
      (respond [''blackjack_title'', ''player_hand'', ''dealer_shows'', ''bet_set''] w, None)"
    by (simp add: send_blackjack_state_def format_card_ok_def)
  with deal hp hd show ?thesis
    by (simp add: is_blackjack_def)
qed

subsection \<open>Placing a bet and resolving a round\<close>

lemma resolve_cases:
  fixes user_id :: int and w :: world and rnd :: real and b :: int
  assumes p: "hand_value ph = Inr (pt, ps)" and d: "hand_value dh = Inr (dt, ds)"
    and r1: "in_int64 b" and r2: "in_int64 (b * 2)"
  defines "boost \<equiv> get_blackjack_boost user_id w"
  defines "finish \<equiv> \<lambda>outcome w'. (clear_blackjack_session user_id
      (respond [''blackjack_title'', ''player_hand'', ''dealer_hand'', outcome, ''balance_label'']
         (ensure_wallet user_id w')), None :: py_error option)"
  shows "pt > 21 \<Longrightarrow>
           resolve_blackjack_outcome user_id ph dh b rnd w = finish ''blackjack_bust'' w"
    and "pt \<le> 21 \<Longrightarrow> dt > 21 \<or> (boost > 0 \<and> pt \<le> dt \<and> rnd < boost) \<Longrightarrow>
           resolve_blackjack_outcome user_id ph dh b rnd w =
             finish ''blackjack_dealer_bust'' (credit user_id (b * 2) w)"
    and "pt \<le> 21 \<Longrightarrow> dt < pt \<Longrightarrow>
           resolve_blackjack_outcome user_id ph dh b rnd w =
             finish ''blackjack_player_win'' (credit user_id (b * 2) w)"
    and "pt < dt \<Longrightarrow> dt \<le> 21 \<Longrightarrow> \<not> (boost > 0 \<and> rnd < boost) \<Longrightarrow>
           resolve_blackjack_outcome user_id ph dh b rnd w = finish ''blackjack_dealer_win'' w"
    and "pt = dt \<Longrightarrow> dt \<le> 21 \<Longrightarrow> \<not> (boost > 0 \<and> rnd < boost) \<Longrightarrow>
           resolve_blackjack_outcome user_id ph dh b rnd w =
             finish ''blackjack_push'' (credit user_id b w)"
  unfolding boost_def finish_def
  by (auto simp: resolve_blackjack_outcome_def p d Let_def get_balance_eq
                 adjust_balance_bound [OF r1] adjust_balance_bound [OF r2])

lemma handle_bet_unfold:
  assumes "\<not> of_int b > num_real (read_balance user_id w)"
    and "in_int64 b" and "in_int64 (- b)" and "in_int64 (b * 2)"
    and "deal_hands shuffled = Inr (ph, dh, dk)"
    and "is_blackjack ph = Inr pbj" and "is_blackjack dh = Inr dbj"
  shows "handle_bet_selection user_id b shuffled w =
    (let w4 = credit user_id (- b)
                (increment_stat user_id ''games_played'' 1
                   ((ensure_wallet user_id w)\<lparr>ctx := (ctx (ensure_wallet user_id w))\<lparr>ud_bj_pending := Some False\<rparr>\<rparr>));
         w5 = w4\<lparr>blackjack_sessions := (blackjack_sessions w4)(user_id \<mapsto>
                \<lparr>s_deck = dk, s_player_hand = ph, s_dealer_hand = dh, s_bet = b,
                 s_status = ''active''\<rparr>)\<rparr>
     in if pbj \<or> dbj then
          (clear_blackjack_session user_id
             (respond [''blackjack_title'', ''player_hand'', ''dealer_hand'',
                       if pbj \<and> dbj then ''blackjack_push''
                       else if pbj then ''blackjack_player_blackjack''
                       else ''blackjack_dealer_blackjack'', ''balance_label'']
                (ensure_wallet user_id
                   (if pbj \<and> dbj then credit user_id b w5
                    else if pbj then credit user_id (b * 2) w5 else w5))), None)
        else send_blackjack_state ph dh w5)"
  using assms
  by (simp add: handle_bet_selection_def get_balance_eq Let_def adjust_balance_bound
                save_session_bound)

lemma stand_is_resolve:
  "blackjack_sessions v user_id = Some s \<Longrightarrow>
   dealer_play (s_dealer_hand s) (s_deck s) = Inr (dh, dk) \<Longrightarrow>
     blackjack_stand user_id rnd v =
       resolve_blackjack_outcome user_id (s_player_hand s) dh (s_bet s) rnd v"
  by (simp add: blackjack_stand_def load_blackjack_session_def)

text \<open>
  Claim C2. A user whose balance reads \<open>B\<close> places a bet \<open>b \<le> B\<close> on a shuffled deck,
  the amounts moved being within the 64-bit range of the wallet column: the handler returns,
  and unless a hand is a natural the balance reads \<open>B - b\<close> at once, with the round stored
  (with a natural the round is settled on the spot: \<open>B\<close> when both hands are naturals,
  \<open>B + b\<close> for the player's, \<open>B - b\<close> for the dealer's). Resolving a round of bet \<open>b\<close>
  from a balance of \<open>B - b\<close> deletes the session, announces one outcome and leaves
  \<open>B + b\<close> after a dealer bust or a higher player total (twice the bet is credited), \<open>B\<close>
  after a push (the bet is credited) and \<open>B - b\<close> after a dealer win or a player bust
  (nothing is credited); the balance goes by the outcome announced, and a tie or a dealer
  lead that the user's boost turns into a dealer bust is announced and paid as a dealer bust.
  A stand resolves the stored round, at its stored bet, once the dealer has played.
\<close>

theorem bet_debit_and_payout:
  "(read_balance user_id w = SqlInteger B \<and> b \<le> B \<and> bet_in_range B b
    \<and> is_shuffled_deck shuffled \<longrightarrow>
      (\<exists>ph dh dk pbj dbj w'.
         deal_hands shuffled = Inr (ph, dh, dk)
         \<and> is_blackjack ph = Inr pbj \<and> is_blackjack dh = Inr dbj
         \<and> handle_bet_selection user_id b shuffled w = (w', None)
         \<and> (if pbj \<or> dbj
             then blackjack_sessions w' user_id = None
                \<and> read_balance user_id w' =
                    SqlInteger (if pbj \<and> dbj then B else if pbj then B + b else B - b)
             else blackjack_sessions w' user_id =
                    Some \<lparr>s_deck = dk, s_player_hand = ph, s_dealer_hand = dh, s_bet = b,
                          s_status = ''active''\<rparr>
                \<and> read_balance user_id w' = SqlInteger (B - b))))
   \<and> (read_balance user_id v = SqlInteger (B - b) \<and> bet_in_range B b
       \<and> hand_value ph' = Inr (pt, ps) \<and> hand_value dh' = Inr (dt, ds) \<longrightarrow>
      (\<exists>outcome v'.
         resolve_blackjack_outcome user_id ph' dh' b rnd v = (v', None)
         \<and> sent v' = sent v @ [[''blackjack_title'', ''player_hand'', ''dealer_hand'', outcome,
                                 ''balance_label'']]
         \<and> blackjack_sessions v' user_id = None
         \<and> (pt \<le> 21 \<and> (21 < dt \<or> dt < pt) \<longrightarrow>
              outcome \<in> {''blackjack_dealer_bust'', ''blackjack_player_win''}
              \<and> read_balance user_id v' = SqlInteger (B + b))
         \<and> (pt \<le> 21 \<and> pt \<le> dt \<and> dt \<le> 21 \<and> 0 < get_blackjack_boost user_id v
               \<and> rnd < get_blackjack_boost user_id v \<longrightarrow>
              outcome = ''blackjack_dealer_bust'' \<and> read_balance user_id v' = SqlInteger (B + b))
         \<and> (pt = dt \<and> dt \<le> 21 \<and> \<not> (0 < get_blackjack_boost user_id v
               \<and> rnd < get_blackjack_boost user_id v) \<longrightarrow>
              outcome = ''blackjack_push'' \<and> read_balance user_id v' = SqlInteger B)
         \<and> (pt < dt \<and> dt \<le> 21 \<and> \<not> (0 < get_blackjack_boost user_id v
               \<and> rnd < get_blackjack_boost user_id v) \<longrightarrow>
              outcome = ''blackjack_dealer_win'' \<and> read_balance user_id v' = SqlInteger (B - b))
         \<and> (21 < pt \<longrightarrow> outcome = ''blackjack_bust''
              \<and> read_balance user_id v' = SqlInteger (B - b))
         \<and> outcome \<in> {''blackjack_dealer_bust'', ''blackjack_player_win'', ''blackjack_push'',
                       ''blackjack_dealer_win'', ''blackjack_bust''}
         \<and> read_balance user_id v' =
             SqlInteger (if outcome \<in> {''blackjack_dealer_bust'', ''blackjack_player_win''}
                         then B + b
                         else if outcome = ''blackjack_push'' then B else B - b)))
   \<and> (blackjack_sessions v user_id = Some s
       \<and> dealer_play (s_dealer_hand s) (s_deck s) = Inr (dh'', dk'') \<longrightarrow>
         blackjack_stand user_id rnd v =
           resolve_blackjack_outcome user_id (s_player_hand s) dh'' (s_bet s) rnd v)"
proof (intro conjI impI)
  assume a: "read_balance user_id w = SqlInteger B \<and> b \<le> B \<and> bet_in_range B b
    \<and> is_shuffled_deck shuffled"
  then have sh: "is_shuffled_deck shuffled" and B: "read_balance user_id w = SqlInteger B"
    and le: "\<not> of_int b > num_real (read_balance user_id w)"
    and r: "in_int64 b" "in_int64 (- b)" "in_int64 (b * 2)" "in_int64 B" "in_int64 (B - b)"
      "in_int64 (B + b)"
    by (auto simp: bet_in_range_def num_real_def)
  obtain ph dh dk pbj dbj where deal: "deal_hands shuffled = Inr (ph, dh, dk)"
    and p: "is_blackjack ph = Inr pbj" and d: "is_blackjack dh = Inr dbj"
    and state: "\<And>w. send_blackjack_state ph dh w =
       (respond [''blackjack_title'', ''player_hand'', ''dealer_shows'', ''bet_set''] w, None)"
    using shuffled_deal [OF sh] by blast
  note unfold = handle_bet_unfold [OF le r(1) r(2) r(3) deal p d]
  define w3 where "w3 = increment_stat user_id ''games_played'' 1
     ((ensure_wallet user_id w)\<lparr>ctx := (ctx (ensure_wallet user_id w))\<lparr>ud_bj_pending := Some False\<rparr>\<rparr>)"
  define w4 where "w4 = credit user_id (- b) w3"
  define w5 where "w5 = w4\<lparr>blackjack_sessions := (blackjack_sessions w4)(user_id \<mapsto>
                \<lparr>s_deck = dk, s_player_hand = ph, s_dealer_hand = dh, s_bet = b,
                 s_status = ''active''\<rparr>)\<rparr>"
  have b3: "read_balance user_id w3 = SqlInteger B" unfolding w3_def using B by simp
  have b4: "read_balance user_id w4 = SqlInteger (B - b)"
    unfolding w4_def using read_balance_credit [OF b3 r(2)] r(5) by simp
  have b5: "read_balance user_id w5 = SqlInteger (B - b)" unfolding w5_def using b4 by simp
  have push: "read_balance user_id (credit user_id b w5) = SqlInteger B"
    using read_balance_credit [OF b5 r(1)] r(4) by simp
  have win: "read_balance user_id (credit user_id (b * 2) w5) = SqlInteger (B + b)"
    using read_balance_credit [OF b5 r(3)] r(6) by (simp add: algebra_simps)
  define w' where "w' = fst (handle_bet_selection user_id b shuffled w)"
  have run: "handle_bet_selection user_id b shuffled w = (w', None)"
    unfolding w'_def by (simp add: unfold Let_def state)
  have fin: "if pbj \<or> dbj
             then blackjack_sessions w' user_id = None
                \<and> read_balance user_id w' =
                    SqlInteger (if pbj \<and> dbj then B else if pbj then B + b else B - b)
             else blackjack_sessions w' user_id =
                    Some \<lparr>s_deck = dk, s_player_hand = ph, s_dealer_hand = dh, s_bet = b,
                          s_status = ''active''\<rparr>
                \<and> read_balance user_id w' = SqlInteger (B - b)"
    unfolding w'_def
    using b5 push win
    by (simp add: unfold Let_def state w5_def w4_def w3_def)
  from deal p d run fin
  show "\<exists>ph dh dk pbj dbj w'.
         deal_hands shuffled = Inr (ph, dh, dk)
         \<and> is_blackjack ph = Inr pbj \<and> is_blackjack dh = Inr dbj
         \<and> handle_bet_selection user_id b shuffled w = (w', None)
         \<and> (if pbj \<or> dbj
             then blackjack_sessions w' user_id = None
                \<and> read_balance user_id w' =
                    SqlInteger (if pbj \<and> dbj then B else if pbj then B + b else B - b)
             else blackjack_sessions w' user_id =
                    Some \<lparr>s_deck = dk, s_player_hand = ph, s_dealer_hand = dh, s_bet = b,
                          s_status = ''active''\<rparr>
                \<and> read_balance user_id w' = SqlInteger (B - b))"
    by blast
next
  assume a: "read_balance user_id v = SqlInteger (B - b) \<and> bet_in_range B b
       \<and> hand_value ph' = Inr (pt, ps) \<and> hand_value dh' = Inr (dt, ds)"
  then have bal: "read_balance user_id v = SqlInteger (B - b)"
    and p: "hand_value ph' = Inr (pt, ps)" and d: "hand_value dh' = Inr (dt, ds)"
    and r: "in_int64 b" "in_int64 (b * 2)" "in_int64 B" "in_int64 (B + b)"
    by (auto simp: bet_in_range_def)
  have push: "read_balance user_id (credit user_id b v) = SqlInteger B"
    using read_balance_credit [OF bal r(1)] r(3) by simp
  have win: "read_balance user_id (credit user_id (b * 2) v) = SqlInteger (B + b)"
    using read_balance_credit [OF bal r(2)] r(4) by (simp add: algebra_simps)
  let ?boosted = "0 < get_blackjack_boost user_id v \<and> rnd < get_blackjack_boost user_id v"
  consider (bust) "21 < pt"
    | (dbust) "pt \<le> 21" "21 < dt \<or> (pt \<le> dt \<and> ?boosted)"
    | (win) "pt \<le> 21" "dt < pt" "dt \<le> 21"
    | (lose) "pt < dt" "dt \<le> 21" "\<not> ?boosted"
    | (push) "pt = dt" "dt \<le> 21" "\<not> ?boosted"
    by linarith
  then show "\<exists>outcome v'.
         resolve_blackjack_outcome user_id ph' dh' b rnd v = (v', None)
         \<and> sent v' = sent v @ [[''blackjack_title'', ''player_hand'', ''dealer_hand'', outcome,
                                 ''balance_label'']]
         \<and> blackjack_sessions v' user_id = None
         \<and> (pt \<le> 21 \<and> (21 < dt \<or> dt < pt) \<longrightarrow>
              outcome \<in> {''blackjack_dealer_bust'', ''blackjack_player_win''}
              \<and> read_balance user_id v' = SqlInteger (B + b))
         \<and> (pt \<le> 21 \<and> pt \<le> dt \<and> dt \<le> 21 \<and> 0 < get_blackjack_boost user_id v
               \<and> rnd < get_blackjack_boost user_id v \<longrightarrow>
              outcome = ''blackjack_dealer_bust'' \<and> read_balance user_id v' = SqlInteger (B + b))
         \<and> (pt = dt \<and> dt \<le> 21 \<and> \<not> (0 < get_blackjack_boost user_id v
               \<and> rnd < get_blackjack_boost user_id v) \<longrightarrow>
              outcome = ''blackjack_push'' \<and> read_balance user_id v' = SqlInteger B)
         \<and> (pt < dt \<and> dt \<le> 21 \<and> \<not> (0 < get_blackjack_boost user_id v
               \<and> rnd < get_blackjack_boost user_id v) \<longrightarrow>
              outcome = ''blackjack_dealer_win'' \<and> read_balance user_id v' = SqlInteger (B - b))
         \<and> (21 < pt \<longrightarrow> outcome = ''blackjack_bust''
              \<and> read_balance user_id v' = SqlInteger (B - b))
         \<and> outcome \<in> {''blackjack_dealer_bust'', ''blackjack_player_win'', ''blackjack_push'',
                       ''blackjack_dealer_win'', ''blackjack_bust''}
         \<and> read_balance user_id v' =
             SqlInteger (if outcome \<in> {''blackjack_dealer_bust'', ''blackjack_player_win''}
                         then B + b
                         else if outcome = ''blackjack_push'' then B else B - b)"
  proof cases
    case bust
    show ?thesis
      unfolding resolve_cases(1) [OF p d r(1) r(2) bust]
      by (rule exI [of _ "''blackjack_bust''"]) (use bust bal in auto)
  next
    case dbust
    then have c: "21 < dt \<or> (0 < get_blackjack_boost user_id v \<and> pt \<le> dt \<and> rnd < get_blackjack_boost user_id v)"
      by auto
    show ?thesis
      unfolding resolve_cases(2) [OF p d r(1) r(2) dbust(1) c]
      by (rule exI [of _ "''blackjack_dealer_bust''"]) (use dbust win in auto)
  next
    case win
    note w = win
    show ?thesis
      unfolding resolve_cases(3) [OF p d r(1) r(2) w(1) w(2)]
      by (rule exI [of _ "''blackjack_player_win''"])
         (use w \<open>read_balance user_id (credit user_id (b * 2) v) = SqlInteger (B + b)\<close> in auto)
  next
    case lose
    show ?thesis
      unfolding resolve_cases(4) [OF p d r(1) r(2) lose(1) lose(2) lose(3)]
      by (rule exI [of _ "''blackjack_dealer_win''"]) (use lose bal in auto)
  next
    case push
    note ps = push
    show ?thesis
      unfolding resolve_cases(5) [OF p d r(1) r(2) ps(1) ps(2) ps(3)]
      by (rule exI [of _ "''blackjack_push''"])
         (use ps \<open>read_balance user_id (credit user_id b v) = SqlInteger B\<close> in auto)
  qed
next
  assume "blackjack_sessions v user_id = Some s
       \<and> dealer_play (s_dealer_hand s) (s_deck s) = Inr (dh'', dk'')"
  then show "blackjack_stand user_id rnd v =
           resolve_blackjack_outcome user_id (s_player_hand s) dh'' (s_bet s) rnd v"
    by (simp add: stand_is_resolve)
qed

theorem bet_debit_and_payout_witness:
  "read_balance 1 (wallet_world 1 100) = SqlInteger 100 \<and> (10::int) \<le> 100
   \<and> bet_in_range 100 10 \<and> is_shuffled_deck unshuffled_deck
   \<and> read_balance 1 (wallet_world 1 90) = SqlInteger (100 - 10)
   \<and> hand_value [''10S'', ''9H''] = Inr (19, False) \<and> hand_value [''10H'', ''7C''] = Inr (17, False)
   \<and> blackjack_sessions (session_world 1 90 open_session) 1 = Some open_session
   \<and> dealer_play (s_dealer_hand open_session) (s_deck open_session)
       = Inr ([''KD'', ''KH''], take 48 unshuffled_deck)
   \<and> snd (handle_bet_selection 1 10 unshuffled_deck (wallet_world 1 100)) = None
   \<and> read_balance 1 (fst (handle_bet_selection 1 10 unshuffled_deck (wallet_world 1 100)))
       = SqlInteger 90
   \<and> read_balance 1 (fst (resolve_blackjack_outcome 1 [''10S'', ''9H''] [''10H'', ''7C''] 10 0
                            (wallet_world 1 90))) = SqlInteger 110
   \<and> blackjack_stand 1 0 (session_world 1 90 open_session)
       = resolve_blackjack_outcome 1 [''KS'', ''KC''] [''KD'', ''KH''] 10 0
           (session_world 1 90 open_session)"
proof -
  have rng: "bet_in_range 100 10" by (simp add: bet_in_range_def in_int64_def)
  have h1: "read_balance 1 (wallet_world 1 100) = SqlInteger 100 \<and> (10::int) \<le> 100
            \<and> bet_in_range 100 10 \<and> is_shuffled_deck unshuffled_deck"
    using rng
    by (simp add: read_balance_def get_balance_def ensure_wallet_def wallet_world_def
                  empty_world_def is_shuffled_deck_def)
  have h2: "read_balance 1 (wallet_world 1 90) = SqlInteger (100 - 10) \<and> bet_in_range 100 10
            \<and> hand_value [''10S'', ''9H''] = Inr (19, False)
            \<and> hand_value [''10H'', ''7C''] = Inr (17, False)"
  proof (intro conjI)
    show "read_balance 1 (wallet_world 1 90) = SqlInteger (100 - 10)"
      by (simp add: read_balance_def get_balance_def ensure_wallet_def wallet_world_def
                  empty_world_def)
    show "bet_in_range 100 10" by (rule rng)
    show "hand_value [''10S'', ''9H''] = Inr (19, False)" by code_simp
    show "hand_value [''10H'', ''7C''] = Inr (17, False)" by code_simp
  qed
  have ses: "blackjack_sessions (session_world 1 90 open_session) 1 = Some open_session"
    by (simp add: session_world_def)
  have fields: "s_dealer_hand open_session = [''KD'', ''KH'']"
    "s_player_hand open_session = [''KS'', ''KC'']" "s_bet open_session = 10"
    "s_deck open_session = take 48 unshuffled_deck"
    by (simp_all add: open_session_def)
  have "hand_value [''KD'', ''KH''] = Inr (20, False)" by code_simp
  then have dp: "dealer_play (s_dealer_hand open_session) (s_deck open_session)
       = Inr ([''KD'', ''KH''], take 48 unshuffled_deck)"
    by (simp add: fields dealer_play.simps [of "[''KD'', ''KH'']"])
  have h3: "blackjack_sessions (session_world 1 90 open_session) 1 = Some open_session
     \<and> dealer_play (s_dealer_hand open_session) (s_deck open_session)
       = Inr ([''KD'', ''KH''], take 48 unshuffled_deck)"
    using ses dp by simp
  have deal: "deal_hands unshuffled_deck =
      Inr ([''KS'', ''KC''], [''KD'', ''KH''], take 48 unshuffled_deck)"
    by code_simp
  have bj: "is_blackjack [''KS'', ''KC''] = Inr False" "is_blackjack [''KD'', ''KH''] = Inr False"
    by code_simp+
  note inst = bet_debit_and_payout [where user_id = 1 and w = "wallet_world 1 100" and B = 100
      and b = 10 and shuffled = unshuffled_deck and v = "wallet_world 1 90"
      and ph' = "[''10S'', ''9H'']" and pt = 19 and ps = False
      and dh' = "[''10H'', ''7C'']" and dt = 17 and ds = False and rnd = 0]
  note inst3 = bet_debit_and_payout [where user_id = 1 and v = "session_world 1 90 open_session"
      and s = open_session and dh'' = "[''KD'', ''KH'']" and dk'' = "take 48 unshuffled_deck"
      and rnd = 0]
  note p1 = inst [THEN conjunct1, rule_format]
  note p2 = inst [THEN conjunct2, THEN conjunct1, rule_format]
  note p3 = inst3 [THEN conjunct2, THEN conjunct2, rule_format]
  from p1 [OF h1] obtain w' where
    "handle_bet_selection 1 10 unshuffled_deck (wallet_world 1 100) = (w', None)"
    "read_balance 1 w' = SqlInteger (100 - 10)"
    by (auto simp: deal bj)
  moreover from p2 [OF h2] obtain v' where
    "resolve_blackjack_outcome 1 [''10S'', ''9H''] [''10H'', ''7C''] 10 0 (wallet_world 1 90) = (v', None)"
    "read_balance 1 v' = SqlInteger (100 + 10)"
    by auto
  moreover from p3 [OF h3] have
    "blackjack_stand 1 0 (session_world 1 90 open_session)
       = resolve_blackjack_outcome 1 [''KS'', ''KC''] [''KD'', ''KH''] 10 0
           (session_world 1 90 open_session)"
    by (simp add: fields)
  ultimately show ?thesis using h1 h2 h3 by simp
qed

lemma bet_over_balance_rejected:
  "num_real (read_balance user_id w) < of_int b \<Longrightarrow>
     handle_bet_selection user_id b shuffled w =
       (respond [''bet_too_high''] (ensure_wallet user_id w), None)"
  by (simp add: handle_bet_selection_def get_balance_eq game_menu_markup_def)

text \<open>
  A bet whose debit cannot be bound as an SQL integer: the handler has counted the game and
  dealt when \<open>adjust_balance\<close> raises, and no round is stored.
\<close>

lemma unbindable_bet_raises:
  "map_option (\<lambda>w. (blackjack_sessions w 1, user_wallets w 1,
                     map_option (\<lambda>r. r ''games_played'') (user_stats w 1), sent w))
     (button 1 ''bjbet:-9223372036854775808'' unshuffled_deck 0 (wallet_world 1 20))
   = Some (None, Some (SqlInteger 20), Some 1, [[''Oops'']])"
  by code_simp

text \<open>
  Claim C6. Bet placement is to accept an amount only when \<open>0 < amount \<le> balance\<close>. The
  handler turns down an amount above the balance (\<open>bet_over_balance_rejected\<close>: one
  message, nothing else written but the wallet row a reading of the balance makes sure of),
  but it has no lower bound. A user with 20 points whom the bet prompt is waiting for types
  \<open>0\<close>: the text passes \<open>isdigit\<close>, the handler returns without an error, and a round of
  bet 0 is dealt and stored where no session was.
\<close>

theorem zero_bet_starts_round:
  "quick_reply_handler 1 ''0'' unshuffled_deck (pending_world 1 20) =
     Some (handle_bet_selection 1 0 unshuffled_deck (pending_world 1 20))
   \<and> snd (handle_bet_selection 1 0 unshuffled_deck (pending_world 1 20)) = None
   \<and> blackjack_sessions (pending_world 1 20) 1 = None
   \<and> blackjack_sessions (fst (handle_bet_selection 1 0 unshuffled_deck (pending_world 1 20))) 1 =
       Some \<lparr>s_deck = take 48 unshuffled_deck, s_player_hand = [''KS'', ''KC''],
             s_dealer_hand = [''KD'', ''KH''], s_bet = 0, s_status = ''active''\<rparr>
   \<and> sent (fst (handle_bet_selection 1 0 unshuffled_deck (pending_world 1 20))) =
       [[''blackjack_title'', ''player_hand'', ''dealer_shows'', ''bet_set'']]"
proof (intro conjI)
  have "py_strip ''0'' = ''0''" "py_isdigit ''0''" "py_int ''0'' = Some 0"
    by code_simp+
  moreover have "ud_bj_pending (ctx (pending_world 1 20)) = Some True"
    by (simp add: pending_world_def)
  ultimately show "quick_reply_handler 1 ''0'' unshuffled_deck (pending_world 1 20) =
     Some (handle_bet_selection 1 0 unshuffled_deck (pending_world 1 20))"
    by (simp add: quick_reply_handler_def)
qed code_simp+

text \<open>
  The same gap on the button path: the data \<open>bjbet:-5\<close> starts a round of bet -5, and the
  debit of the bet adds 5 points to a balance of 20.
\<close>

lemma negative_bet_credits:
  "map_option (\<lambda>w. (user_wallets w 1, map_option s_bet (blackjack_sessions w 1)))
     (button 1 ''bjbet:-5'' unshuffled_deck 0 (wallet_world 1 20))
   = Some (Some (SqlInteger 25), Some (- 5))"
  by code_simp

subsection \<open>An empty deck, and a bet over a round in play\<close>

text \<open>
  Claim C5, as stated, fails on a double: the second stake is debited before the card is
  drawn, so on a stored round whose deck is empty the draw raises after the balance has gone
  from 100 to 90, and the session stays stored.
\<close>

theorem double_on_empty_deck_debits:
  "load_blackjack_session 1 (session_world 1 100 stuck_session) = Some stuck_session
   \<and> s_deck stuck_session = []
   \<and> read_balance 1 (session_world 1 100 stuck_session) = SqlInteger 100
   \<and> snd (blackjack_double 1 0 (session_world 1 100 stuck_session)) = Some IndexError
   \<and> read_balance 1 (fst (blackjack_double 1 0 (session_world 1 100 stuck_session)))
       = SqlInteger 90
   \<and> blackjack_sessions (fst (blackjack_double 1 0 (session_world 1 100 stuck_session))) 1
       = Some stuck_session"
  by code_simp

text \<open>
  Claim C5, amended. \<open>draw_card\<close> on a non-empty deck returns its last card, the top,
  and the deck without it; on an empty deck it raises \<open>IndexError\<close>, the exception of
  \<open>list.pop\<close> (the code has no exception of its own for it). A hit on a stored round with
  an empty deck, and a stand during which the dealer's draw fails, raise before anything is
  written: the world is as it was, the session included, and the button handler answers with
  its apology.
\<close>

theorem draw_card_defined:
  "(dk \<noteq> [] \<longrightarrow> draw_card dk = Inr (last dk, butlast dk))
   \<and> draw_card (dk @ [c]) = Inr (c, dk)
   \<and> draw_card [] = Inl IndexError
   \<and> (blackjack_sessions w user_id = Some s \<and> s_deck s = [] \<longrightarrow>
        blackjack_hit user_id w = (w, Some IndexError)
        \<and> button user_id ''bj:hit'' shuffled rnd w = Some (w\<lparr>sent := sent w @ [[''Oops'']]\<rparr>))
   \<and> (blackjack_sessions w user_id = Some s
        \<and> dealer_play (s_dealer_hand s) (s_deck s) = Inl e \<longrightarrow>
        blackjack_stand user_id rnd w = (w, Some e)
        \<and> button user_id ''bj:stand'' shuffled rnd w = Some (w\<lparr>sent := sent w @ [[''Oops'']]\<rparr>))
   \<and> (dealer_draws hand \<longrightarrow> dealer_play hand [] = Inl IndexError)"
  by (auto simp: draw_card_def blackjack_hit_def blackjack_stand_def load_blackjack_session_def
                 button_def catch_all_def respond_def dealer_play_empty)

theorem draw_card_defined_witness:
  "[''2H'', ''KD''] \<noteq> [] \<and> draw_card [''2H'', ''KD''] = Inr (''KD'', [''2H''])
   \<and> blackjack_sessions (session_world 1 100 stuck_session) 1 = Some stuck_session
   \<and> s_deck stuck_session = []
   \<and> dealer_play (s_dealer_hand stuck_session) (s_deck stuck_session) = Inl IndexError
   \<and> dealer_draws [''9C'', ''7D'']
   \<and> blackjack_hit 1 (session_world 1 100 stuck_session)
        = (session_world 1 100 stuck_session, Some IndexError)
   \<and> blackjack_stand 1 0 (session_world 1 100 stuck_session)
        = (session_world 1 100 stuck_session, Some IndexError)"
proof -
  have s: "blackjack_sessions (session_world 1 100 stuck_session) 1 = Some stuck_session"
    by (simp add: session_world_def)
  have e: "s_deck stuck_session = []" by (simp add: stuck_session_def)
  have d: "dealer_draws [''9C'', ''7D'']" by code_simp
  have dp: "dealer_play (s_dealer_hand stuck_session) (s_deck stuck_session) = Inl IndexError"
    by code_simp
  have ne: "[''2H'', ''KD''] \<noteq> []" by simp
  note inst = draw_card_defined [where dk = "[''2H'', ''KD'']" and w = "session_world 1 100 stuck_session"
      and user_id = 1 and s = stuck_session and e = IndexError and rnd = 0
      and hand = "[''9C'', ''7D'']"]
  from inst ne s e d dp show ?thesis by simp
qed

text \<open>
  Claim C4, as stated, fails: a user with a round in play (bet 10, balance 90) presses the
  blackjack button and types 5. The prompt sets the pending flag without looking at the
  session table, and the bet handler deals a new round of bet 5 over the stored one; the
  balance goes to 85.
\<close>

theorem new_bet_over_open_round:
  "blackjack_sessions (session_world 1 90 open_session) 1 = Some open_session
   \<and> is_shuffled_deck (rev unshuffled_deck)
   \<and> map_option (\<lambda>(w, e). (blackjack_sessions w 1, user_wallets w 1, e))
        (Option.bind (button 1 ''game:blackjack'' [] 0 (session_world 1 90 open_session))
           (quick_reply_handler 1 ''5'' (rev unshuffled_deck)))
      = Some (Some \<lparr>s_deck = take 48 (rev unshuffled_deck), s_player_hand = [''AH'', ''AD''],
                     s_dealer_hand = [''AC'', ''AS''], s_bet = 5, s_status = ''active''\<rparr>,
              Some (SqlInteger 85), None)"
proof (intro conjI)
  show "is_shuffled_deck (rev unshuffled_deck)" by (simp add: is_shuffled_deck_def)
qed code_simp+

text \<open>
  Claim C4, amended. The session table is keyed by the user id and saving a session replaces
  the user's row, so a user has at most one stored session. Placing a bet does not look at
  the table: a bet within the balance (the amounts moved being within the 64-bit range of the
  wallet column), on a shuffled deck, is accepted whether or not a round is stored; it
  leaves every other user's session alone and puts the new round in place of the user's (or
  leaves the user without a session when a natural settles the new round at once), and it
  debits the bet (a natural settles the balance as well: the bet back when both hands are
  naturals, twice the bet for the player's natural, nothing for the dealer's). The bet prompt
  sets the pending flag whenever the feature is on and the balance is at least 1, and leaves
  the sessions alone; the flag only decides whether a typed text is read as a bet.
\<close>

theorem bet_replaces_stored_session:
  "(read_balance user_id w = SqlInteger B \<and> b \<le> B \<and> bet_in_range B b
    \<and> is_shuffled_deck shuffled \<longrightarrow>
      (\<exists>ph dh dk pbj dbj w'.
         deal_hands shuffled = Inr (ph, dh, dk)
         \<and> is_blackjack ph = Inr pbj \<and> is_blackjack dh = Inr dbj
         \<and> handle_bet_selection user_id b shuffled w = (w', None)
         \<and> blackjack_sessions w' =
             (blackjack_sessions w)(user_id :=
                if pbj \<or> dbj then None
                else Some \<lparr>s_deck = dk, s_player_hand = ph, s_dealer_hand = dh, s_bet = b,
                           s_status = ''active''\<rparr>)
         \<and> read_balance user_id w' =
             SqlInteger (if pbj \<and> dbj then B else if pbj then B + b else B - b)))
   \<and> (in_int64 b' \<longrightarrow>
        (\<exists>w'. save_blackjack_session user_id dk' ph' dh' b' st w = Inr w'
           \<and> blackjack_sessions w' =
               (blackjack_sessions w)(user_id \<mapsto>
                  \<lparr>s_deck = dk', s_player_hand = ph', s_dealer_hand = dh', s_bet = b',
                   s_status = st\<rparr>)))
   \<and> (is_feature_enabled ''blackjack'' w \<and> 1 \<le> num_real (read_balance user_id w) \<longrightarrow>
        ud_bj_pending (ctx (fst (start_blackjack user_id w))) = Some True
        \<and> blackjack_sessions (fst (start_blackjack user_id w)) = blackjack_sessions w)
   \<and> (py_strip msg \<noteq> [] \<and> ud_bj_pending (ctx w) \<noteq> Some True \<longrightarrow>
        quick_reply_handler user_id msg shuffled w = None)"
proof (intro conjI impI)
  assume a: "read_balance user_id w = SqlInteger B \<and> b \<le> B \<and> bet_in_range B b
    \<and> is_shuffled_deck shuffled"
  then have sh: "is_shuffled_deck shuffled" and B: "read_balance user_id w = SqlInteger B"
    and le: "\<not> of_int b > num_real (read_balance user_id w)"
    and r: "in_int64 b" "in_int64 (- b)" "in_int64 (b * 2)" "in_int64 B" "in_int64 (B - b)"
      "in_int64 (B + b)"
    by (auto simp: bet_in_range_def num_real_def)
  obtain ph dh dk pbj dbj where deal: "deal_hands shuffled = Inr (ph, dh, dk)"
    and p: "is_blackjack ph = Inr pbj" and d: "is_blackjack dh = Inr dbj"
    and state: "\<And>w. send_blackjack_state ph dh w =
       (respond [''blackjack_title'', ''player_hand'', ''dealer_shows'', ''bet_set''] w, None)"
    using shuffled_deal [OF sh] by blast
  note unfold = handle_bet_unfold [OF le r(1) r(2) r(3) deal p d]
  define w3 where "w3 = increment_stat user_id ''games_played'' 1
     ((ensure_wallet user_id w)\<lparr>ctx := (ctx (ensure_wallet user_id w))\<lparr>ud_bj_pending := Some False\<rparr>\<rparr>)"
  define w4 where "w4 = credit user_id (- b) w3"
  define w5 where "w5 = w4\<lparr>blackjack_sessions := (blackjack_sessions w4)(user_id \<mapsto>
                \<lparr>s_deck = dk, s_player_hand = ph, s_dealer_hand = dh, s_bet = b,
                 s_status = ''active''\<rparr>)\<rparr>"
  have b3: "read_balance user_id w3 = SqlInteger B" unfolding w3_def using B by simp
  have b4: "read_balance user_id w4 = SqlInteger (B - b)"
    unfolding w4_def using read_balance_credit [OF b3 r(2)] r(5) by simp
  have b5: "read_balance user_id w5 = SqlInteger (B - b)" unfolding w5_def using b4 by simp
  have push: "read_balance user_id (credit user_id b w5) = SqlInteger B"
    using read_balance_credit [OF b5 r(1)] r(4) by simp
  have win: "read_balance user_id (credit user_id (b * 2) w5) = SqlInteger (B + b)"
    using read_balance_credit [OF b5 r(3)] r(6) by (simp add: algebra_simps)
  define w' where "w' = fst (handle_bet_selection user_id b shuffled w)"
  have run: "handle_bet_selection user_id b shuffled w = (w', None)"
    unfolding w'_def by (simp add: unfold Let_def state)
  have ses: "blackjack_sessions w' =
             (blackjack_sessions w)(user_id :=
                if pbj \<or> dbj then None
                else Some \<lparr>s_deck = dk, s_player_hand = ph, s_dealer_hand = dh, s_bet = b,
                           s_status = ''active''\<rparr>)"
    unfolding w'_def
    by (simp add: unfold Let_def state increment_stat_def)
  have bal: "read_balance user_id w' =
             SqlInteger (if pbj \<and> dbj then B else if pbj then B + b else B - b)"
    unfolding w'_def
    using b5 push win
    by (simp add: unfold Let_def state w5_def w4_def w3_def)
  from deal p d run ses bal
  show "\<exists>ph dh dk pbj dbj w'.
         deal_hands shuffled = Inr (ph, dh, dk)
         \<and> is_blackjack ph = Inr pbj \<and> is_blackjack dh = Inr dbj
         \<and> handle_bet_selection user_id b shuffled w = (w', None)
         \<and> blackjack_sessions w' =
             (blackjack_sessions w)(user_id :=
                if pbj \<or> dbj then None
                else Some \<lparr>s_deck = dk, s_player_hand = ph, s_dealer_hand = dh, s_bet = b,
                           s_status = ''active''\<rparr>)
         \<and> read_balance user_id w' =
             SqlInteger (if pbj \<and> dbj then B else if pbj then B + b else B - b)"
    by blast
next
  assume "in_int64 b'"
  then show "\<exists>w'. save_blackjack_session user_id dk' ph' dh' b' st w = Inr w'
           \<and> blackjack_sessions w' =
               (blackjack_sessions w)(user_id \<mapsto>
                  \<lparr>s_deck = dk', s_player_hand = ph', s_dealer_hand = dh', s_bet = b',
                   s_status = st\<rparr>)"
    by (simp add: save_session_bound)
next
  assume "is_feature_enabled ''blackjack'' w \<and> 1 \<le> num_real (read_balance user_id w)"
  then show "ud_bj_pending (ctx (fst (start_blackjack user_id w))) = Some True"
    by (simp add: start_blackjack_def get_balance_eq respond_def)
next
  assume "is_feature_enabled ''blackjack'' w \<and> 1 \<le> num_real (read_balance user_id w)"
  then show "blackjack_sessions (fst (start_blackjack user_id w)) = blackjack_sessions w"
    by (simp add: start_blackjack_def get_balance_eq)
next
  assume "py_strip msg \<noteq> [] \<and> ud_bj_pending (ctx w) \<noteq> Some True"
  then show "quick_reply_handler user_id msg shuffled w = None"
    by (simp add: quick_reply_handler_def Let_def)
qed

theorem bet_replaces_stored_session_witness:
  "read_balance 1 (session_world 1 90 open_session) = SqlInteger 90 \<and> (5::int) \<le> 90
   \<and> bet_in_range 90 5
   \<and> is_shuffled_deck (rev unshuffled_deck)
   \<and> in_int64 5
   \<and> is_feature_enabled ''blackjack'' (session_world 1 90 open_session)
   \<and> 1 \<le> num_real (read_balance 1 (session_world 1 90 open_session))
   \<and> py_strip ''5'' \<noteq> []
   \<and> ud_bj_pending (ctx (session_world 1 90 open_session)) \<noteq> Some True
   \<and> blackjack_sessions (session_world 1 90 open_session) 1 = Some open_session
   \<and> blackjack_sessions
        (fst (handle_bet_selection 1 5 (rev unshuffled_deck) (session_world 1 90 open_session))) 1
       = Some \<lparr>s_deck = take 48 (rev unshuffled_deck), s_player_hand = [''AH'', ''AD''],
               s_dealer_hand = [''AC'', ''AS''], s_bet = 5, s_status = ''active''\<rparr>
   \<and> read_balance 1
        (fst (handle_bet_selection 1 5 (rev unshuffled_deck) (session_world 1 90 open_session)))
       = SqlInteger 85
   \<and> (\<exists>w'. save_blackjack_session 1 [] [] [] 5 ''active'' empty_world = Inr w')
   \<and> ud_bj_pending (ctx (fst (start_blackjack 1 (session_world 1 90 open_session)))) = Some True
   \<and> quick_reply_handler 1 ''5'' (rev unshuffled_deck) (session_world 1 90 open_session) = None"
proof -
  have bal: "read_balance 1 (session_world 1 90 open_session) = SqlInteger 90"
    by (simp add: read_balance_def get_balance_def ensure_wallet_def session_world_def
                  wallet_world_def empty_world_def)
  have rng: "bet_in_range 90 5" "in_int64 5" by (simp_all add: bet_in_range_def in_int64_def)
  have sh: "is_shuffled_deck (rev unshuffled_deck)" by (simp add: is_shuffled_deck_def)
  have fe: "is_feature_enabled ''blackjack'' (session_world 1 90 open_session)"
    by (simp add: is_feature_enabled_def session_world_def wallet_world_def empty_world_def)
  have one: "1 \<le> num_real (read_balance 1 (session_world 1 90 open_session))"
    by (simp add: bal num_real_def)
  have "py_strip ''5'' = ''5''" by code_simp
  then have st: "py_strip ''5'' \<noteq> []" by simp
  have pe: "ud_bj_pending (ctx (session_world 1 90 open_session)) \<noteq> Some True"
    by (simp add: session_world_def wallet_world_def empty_world_def empty_user_data_def)
  have old: "blackjack_sessions (session_world 1 90 open_session) 1 = Some open_session"
    by (simp add: session_world_def)
  have deal: "deal_hands (rev unshuffled_deck) =
      Inr ([''AH'', ''AD''], [''AC'', ''AS''], take 48 (rev unshuffled_deck))"
    by code_simp
  have bj: "is_blackjack [''AH'', ''AD''] = Inr False" "is_blackjack [''AC'', ''AS''] = Inr False"
    by code_simp+
  note inst = bet_replaces_stored_session [where b = 5 and B = 90 and user_id = 1
      and w = "session_world 1 90 open_session" and shuffled = "rev unshuffled_deck"
      and msg = "''5''"]
  note inst2 = bet_replaces_stored_session [where b' = 5 and user_id = 1 and w = empty_world
      and dk' = "[]" and ph' = "[]" and dh' = "[]" and st = "''active''"]
  note p1 = inst [THEN conjunct1, rule_format]
  note p2 = inst2 [THEN conjunct2, THEN conjunct1, rule_format]
  note p3 = inst [THEN conjunct2, THEN conjunct2, THEN conjunct1, rule_format]
  note p4 = inst [THEN conjunct2, THEN conjunct2, THEN conjunct2, rule_format]
  have h1: "read_balance 1 (session_world 1 90 open_session) = SqlInteger 90 \<and> (5::int) \<le> 90
     \<and> bet_in_range 90 5 \<and> is_shuffled_deck (rev unshuffled_deck)"
    using bal rng sh by simp
  from p1 [OF h1] obtain w' where
    run: "handle_bet_selection 1 5 (rev unshuffled_deck) (session_world 1 90 open_session) = (w', None)"
    and ses: "blackjack_sessions w' = (blackjack_sessions (session_world 1 90 open_session))(1 :=
        Some \<lparr>s_deck = take 48 (rev unshuffled_deck), s_player_hand = [''AH'', ''AD''],
               s_dealer_hand = [''AC'', ''AS''], s_bet = 5, s_status = ''active''\<rparr>)"
    and nb: "read_balance 1 w' = SqlInteger (90 - 5)"
    by (auto simp: deal bj)
  from p2 [OF rng(2)] have sv:
    "\<exists>w'. save_blackjack_session 1 [] [] [] 5 ''active'' empty_world = Inr w'"
    by blast
  from p3 fe one have pend:
    "ud_bj_pending (ctx (fst (start_blackjack 1 (session_world 1 90 open_session)))) = Some True"
    by simp
  from p4 st pe have none:
    "quick_reply_handler 1 ''5'' (rev unshuffled_deck) (session_world 1 90 open_session) = None"
    by simp
  from run ses nb sv pend none bal rng sh fe one st pe old show ?thesis by simp
qed

section \<open>Properties of the matching store and the candidate selection\<close>

lemma fold_max_ge: "a \<le> fold max xs (a::nat)"
proof (induction xs arbitrary: a)
  case Nil
  then show ?case by simp
next
  case (Cons x xs)
  have "a \<le> max x a" by simp
  also have "max x a \<le> fold max xs (max x a)" by (rule Cons.IH)
  finally show ?case by simp
qed

lemma fold_max_mem: "x \<in> set xs \<Longrightarrow> x \<le> fold max xs (a::nat)"
proof (induction xs arbitrary: a)
  case Nil
  then show ?case by simp
next
  case (Cons y ys)
  show ?case
  proof (cases "x = y")
    case True
    have "y \<le> max y a" by simp
    also have "max y a \<le> fold max ys (max y a)" by (rule fold_max_ge)
    finally show ?thesis using True by simp
  next
    case False
    with Cons.prems have "x \<in> set ys" by simp
    from Cons.IH [OF this] show ?thesis by simp
  qed
qed

lemma next_rowid_fresh: "\<not> list_ex (\<lambda>r. m_id r = next_rowid (map m_id ms)) ms"
proof
  assume "list_ex (\<lambda>r. m_id r = next_rowid (map m_id ms)) ms"
  then obtain r where r: "r \<in> set ms" and eq: "m_id r = next_rowid (map m_id ms)"
    by (auto simp: list_ex_iff)
  from r have "m_id r \<in> set (map m_id ms)" by simp
  from fold_max_mem [OF this, of 0] eq show False by (simp add: next_rowid_def)
qed

lemma check_mutual_like_appends:
  assumes "list_ex (\<lambda>s. sw_user_id s = target_id \<and> sw_target_id s = user_id
                           \<and> sw_status s = ''like'') (tinder_swipes w)"
  shows "fst (check_mutual_like user_id target_id w) = True"
    and "tinder_matches (snd (check_mutual_like user_id target_id w)) =
           tinder_matches w @ [\<lparr>m_id = next_rowid (map m_id (tinder_matches w)),
                                  m_user_a = min user_id target_id,
                                  m_user_b = max user_id target_id\<rparr>]"
    and "tinder_swipes (snd (check_mutual_like user_id target_id w)) = tinder_swipes w"
proof -
  note fresh = next_rowid_fresh
  show "fst (check_mutual_like user_id target_id w) = True"
    using assms by (simp add: check_mutual_like_def Let_def)
  show "tinder_matches (snd (check_mutual_like user_id target_id w)) =
           tinder_matches w @ [\<lparr>m_id = next_rowid (map m_id (tinder_matches w)),
                                  m_user_a = min user_id target_id,
                                  m_user_b = max user_id target_id\<rparr>]"
    using assms fresh [of "tinder_matches w"]
    by (simp add: check_mutual_like_def Let_def insert_or_ignore_match_def increment_stat_def)
  show "tinder_swipes (snd (check_mutual_like user_id target_id w)) = tinder_swipes w"
    using assms
    by (simp add: check_mutual_like_def Let_def increment_stat_def)
qed

text \<open>
  Claim C1. With a like from user 2 to user 1 stored, the match check for (1, 2) is to leave
  exactly one row for the pair however often it runs. The first call returns true and
  inserts the row; the second call returns true and inserts a second row for the same pair:
  \<open>INSERT OR IGNORE\<close> has no uniqueness constraint on \<open>(user_a, user_b)\<close> to trip over
  (\<open>check_mutual_like_appends\<close>: every call on a reciprocated like appends a row).
\<close>

theorem second_match_check_duplicates:
  "fst (check_mutual_like 1 2 liked_world) = True
   \<and> match_rows 1 2 (snd (check_mutual_like 1 2 liked_world)) =
       [\<lparr>m_id = 1, m_user_a = 1, m_user_b = 2\<rparr>]
   \<and> fst (check_mutual_like 1 2 (snd (check_mutual_like 1 2 liked_world))) = True
   \<and> match_rows 1 2 (snd (check_mutual_like 1 2 (snd (check_mutual_like 1 2 liked_world)))) =
       [\<lparr>m_id = 1, m_user_a = 1, m_user_b = 2\<rparr>, \<lparr>m_id = 2, m_user_a = 1, m_user_b = 2\<rparr>]"
  by code_simp

text \<open>
  What does hold of \<open>get_next_candidate\<close>: the run without the city clause is the
  specification's selection among all candidates, an actor without a locality gets that run
  only, and a compatible candidate anywhere means that some row is returned.
\<close>

lemma spec_compatible_eta:
  "spec_compatible actor g i w =
     (\<lambda>p. sql_eq (p_active p) (Some 1)
      \<and> p_user_id p \<noteq> actor
      \<and> \<not> list_ex (\<lambda>s. sw_user_id s = actor \<and> sw_target_id s = p_user_id p) (tinder_swipes w)
      \<and> (sql_eq i (Some ''Any'') \<or> sql_eq (p_gender p) i)
      \<and> (sql_eq (p_interest p) (Some ''Any'') \<or> sql_eq (p_interest p) g))"
  by (rule ext) (simp add: spec_compatible_def)

lemma fallback_query_is_spec:
  "run_query False user_id user_gender user_interest normalized_city w =
     pick_latest (filter (spec_compatible user_id user_gender user_interest w) (tinder_profiles w))"
  by (simp add: run_query_def spec_compatible_eta Let_def)

lemma empty_locality_unrestricted:
  "get_next_candidate user_id user_gender user_interest [] w =
     pick_latest (filter (spec_compatible user_id user_gender user_interest w) (tinder_profiles w))"
  by (simp add: get_next_candidate_def run_query_def spec_compatible_eta Let_def
           split: option.splits)

lemma pick_latest_None: "pick_latest rs = None \<longleftrightarrow> rs = []"
  by (cases rs) (auto split: option.splits)

lemma candidate_found_when_exists:
  assumes "filter (spec_compatible user_id user_gender user_interest w) (tinder_profiles w) \<noteq> []"
  shows "get_next_candidate user_id user_gender user_interest normalized_city w \<noteq> None"
proof -
  from assms have "pick_latest (filter (spec_compatible user_id user_gender user_interest w)
      (tinder_profiles w)) \<noteq> None"
    by (simp add: pick_latest_None)
  then show ?thesis
    by (simp add: get_next_candidate_def fallback_query_is_spec split: option.splits)
qed

text \<open>
  Claim C8. The selection is to prefer the actor's locality. User 1, a man in Kyiv looking
  for women, has a compatible candidate in Kyiv (user 2) and a more recently updated one in
  Lviv (user 3): the specification's selection returns user 2. In the code the locality run
  binds its values out of place (the city lands in \<open>? = 'Any'\<close>, the actor's interest
  in \<open>p.interest = ?\<close> and the actor's gender in \<open>p.normalized_city = ?\<close>), so it finds
  nothing, and the run without the city clause returns user 3.
\<close>

theorem locality_query_misbound:
  "spec_next_candidate 1 (Some ''Male'') (Some ''Female'') ''kyiv'' two_cities_world
     = Some (profile_of 2 ''kyiv'' 1)
   \<and> run_query True 1 (Some ''Male'') (Some ''Female'') ''kyiv'' two_cities_world = None
   \<and> get_next_candidate 1 (Some ''Male'') (Some ''Female'') ''kyiv'' two_cities_world
     = Some (profile_of 3 ''lviv'' 2)"
  by code_simp

section \<open>Properties of the profile-builder flow\<close>

subsection \<open>What a reply and the draft leave alone\<close>

lemma durable_respond [simp]: "durable_state (respond msg w) = durable_state w"
  by (simp add: durable_state_def respond_def)

lemma durable_upd_ctx [simp]: "durable_state (upd_ctx f w) = durable_state w"
  by (simp add: durable_state_def upd_ctx_def)

lemma ctx_respond [simp]: "ctx (respond msg w) = ctx w"
  by (simp add: respond_def)

lemma ctx_upd_ctx [simp]: "ctx (upd_ctx f w) = f (ctx w)"
  by (simp add: upd_ctx_def)

lemma edit_mode_respond [simp]: "edit_mode (respond msg w) = edit_mode w"
  by (simp add: edit_mode_def)

lemma profiles_respond [simp]: "tinder_profiles (respond msg w) = tinder_profiles w"
  by (simp add: respond_def)

lemma profiles_upd_ctx [simp]: "tinder_profiles (upd_ctx f w) = tinder_profiles w"
  by (simp add: upd_ctx_def)

lemma get_profile_respond [simp]: "get_profile u (respond msg w) = get_profile u w"
  by (simp add: get_profile_def)

lemma get_profile_upd_ctx [simp]: "get_profile u (upd_ctx f w) = get_profile u w"
  by (simp add: get_profile_def)

subsection \<open>The steps while a profile is being created\<close>

lemma tinder_age_keeps:
  "durable_state (fst (tinder_age E user_id msg w)) = durable_state w
   \<and> edit_mode (fst (tinder_age E user_id msg w)) = edit_mode w"
  by (simp add: tinder_age_def Let_def edit_mode_def split: option.splits)

lemma interest_step_keeps:
  "\<not> edit_mode w \<Longrightarrow>
     durable_state (fst (interest_step E user_id v now w)) = durable_state w
     \<and> \<not> edit_mode (fst (interest_step E user_id v now w))"
  by (simp add: interest_step_def Let_def edit_mode_def)

lemma tinder_gender_cb_keeps:
  "\<not> edit_mode w \<Longrightarrow>
     durable_state (fst (tinder_gender_cb E user_id data now w)) = durable_state w
     \<and> \<not> edit_mode (fst (tinder_gender_cb E user_id data now w))"
  by (simp add: tinder_gender_cb_def Let_def edit_mode_def split: sum.splits)

lemma tinder_gender_text_keeps:
  "\<not> edit_mode w \<Longrightarrow>
     durable_state (fst (tinder_gender_text E user_id msg now w)) = durable_state w
     \<and> \<not> edit_mode (fst (tinder_gender_text E user_id msg now w))"
  by (simp add: tinder_gender_text_def Let_def edit_mode_def split: option.splits)

lemma tinder_interest_cb_keeps:
  "\<not> edit_mode w \<Longrightarrow>
     durable_state (fst (tinder_interest_cb E user_id data now w)) = durable_state w
     \<and> \<not> edit_mode (fst (tinder_interest_cb E user_id data now w))"
  by (simp add: tinder_interest_cb_def interest_step_keeps split: sum.splits)

lemma tinder_interest_text_keeps:
  "\<not> edit_mode w \<Longrightarrow>
     durable_state (fst (tinder_interest_text E user_id msg now w)) = durable_state w
     \<and> \<not> edit_mode (fst (tinder_interest_text E user_id msg now w))"
  by (simp add: tinder_interest_text_def Let_def interest_step_keeps)

lemma tinder_city_keeps:
  "\<not> edit_mode w \<Longrightarrow>
     durable_state (fst (tinder_city E user_id m now w)) = durable_state w
     \<and> \<not> edit_mode (fst (tinder_city E user_id m now w))"
  by (simp add: tinder_city_def Let_def edit_mode_def split: city_msg.splits prod.splits option.splits)

lemma tinder_name_keeps:
  "\<not> edit_mode w \<Longrightarrow>
     durable_state (fst (tinder_name E user_id msg now w)) = durable_state w
     \<and> \<not> edit_mode (fst (tinder_name E user_id msg now w))"
  by (simp add: tinder_name_def Let_def edit_mode_def)

lemma tinder_bio_keeps:
  "\<not> edit_mode w \<Longrightarrow>
     durable_state (fst (tinder_bio E user_id msg now w)) = durable_state w
     \<and> \<not> edit_mode (fst (tinder_bio E user_id msg now w))"
  by (simp add: tinder_bio_def Let_def edit_mode_def)

lemma store_media_keeps:
  "durable_state (snd (store_media fid kind w)) = durable_state w
   \<and> edit_mode (snd (store_media fid kind w)) = edit_mode w"
  by (simp add: store_media_def Let_def edit_mode_def)

lemma tinder_confirm_keeps:
  "durable_state (fst (tinder_confirm w)) = durable_state w
   \<and> edit_mode (fst (tinder_confirm w)) = edit_mode w"
  by (simp add: tinder_confirm_def)

lemma tinder_media_keeps:
  "durable_state (fst (tinder_media m w)) = durable_state w
   \<and> edit_mode (fst (tinder_media m w)) = edit_mode w"
proof (cases m)
  case (Photo fid)
  obtain ok w1 where s: "store_media fid ''photo'' w = (ok, w1)" by (cases "store_media fid ''photo'' w")
  from store_media_keeps [of fid "''photo''" w] s
  have "durable_state w1 = durable_state w" "edit_mode w1 = edit_mode w" by simp_all
  with Photo s show ?thesis by (simp add: tinder_media_def tinder_confirm_def)
next
  case (Video fid)
  obtain ok w1 where s: "store_media fid ''video'' w = (ok, w1)" by (cases "store_media fid ''video'' w")
  from store_media_keeps [of fid "''video''" w] s
  have "durable_state w1 = durable_state w" "edit_mode w1 = edit_mode w" by simp_all
  with Video s show ?thesis by (simp add: tinder_media_def tinder_confirm_def)
next
  case Other
  then show ?thesis by (simp add: tinder_media_def)
qed

lemma tinder_media_text_keeps:
  "durable_state (fst (tinder_media_text E msg w)) = durable_state w
   \<and> edit_mode (fst (tinder_media_text E msg w)) = edit_mode w"
  by (simp add: tinder_media_text_def Let_def tinder_confirm_def)

lemma start_tinder_flow_keeps:
  "durable_state (fst (start_tinder_flow w)) = durable_state w
   \<and> edit_mode (fst (start_tinder_flow w)) = edit_mode w"
  by (simp add: start_tinder_flow_def Let_def clear_transient_state_def edit_mode_def)

subsection \<open>The terminal step writes the row\<close>

lemma find_map_replace:
  "find P xs \<noteq> None \<Longrightarrow> P row \<Longrightarrow> find P (map (\<lambda>p. if P p then row else p) xs) = Some row"
  by (induction xs) auto

lemma find_append_new:
  "find P xs = None \<Longrightarrow> P row \<Longrightarrow> find P (xs @ [row]) = Some row"
  by (induction xs) (auto split: if_splits)

lemma get_profile_upsert:
  "get_profile u (upsert_profile u age gender interest city lat lon name bio norm_city now w) =
     Some \<lparr>p_user_id = u, p_age = age, p_gender = gender, p_interest = interest,
           p_city = city, p_normalized_city = norm_city, p_lat = lat, p_lon = lon,
           p_name = name, p_bio = bio, p_active = Some 1, p_updated_at = now\<rparr>"
proof (cases "list_ex (\<lambda>p. p_user_id p = u) (tinder_profiles w)")
  case True
  then have "find (\<lambda>p. p_user_id p = u) (tinder_profiles w) \<noteq> None"
    by (auto simp: list_ex_iff find_None_iff)
  from find_map_replace [OF this, of "\<lparr>p_user_id = u, p_age = age, p_gender = gender,
           p_interest = interest, p_city = city, p_normalized_city = norm_city, p_lat = lat,
           p_lon = lon, p_name = name, p_bio = bio, p_active = Some 1, p_updated_at = now\<rparr>"] True
  show ?thesis by (simp add: get_profile_def upsert_profile_def)
next
  case False
  then have "find (\<lambda>p. p_user_id p = u) (tinder_profiles w) = None"
    by (auto simp: list_ex_iff find_None_iff)
  from find_append_new [OF this, of "\<lparr>p_user_id = u, p_age = age, p_gender = gender,
           p_interest = interest, p_city = city, p_normalized_city = norm_city, p_lat = lat,
           p_lon = lon, p_name = name, p_bio = bio, p_active = Some 1, p_updated_at = now\<rparr>"] False
  show ?thesis by (simp add: get_profile_def upsert_profile_def)
qed

lemma get_profile_cong: "tinder_profiles v = tinder_profiles w \<Longrightarrow> get_profile u v = get_profile u w"
  by (simp add: get_profile_def)

lemma profiles_clear_media [simp]:
  "tinder_profiles (clear_profile_media u w) = tinder_profiles w"
  by (simp add: clear_profile_media_def)

lemma profiles_add_media [simp]:
  "tinder_profiles (add_profile_media u fid kind idx w) = tinder_profiles w"
  by (simp add: add_profile_media_def)

lemma profiles_add_all_media [simp]:
  "tinder_profiles (add_all_media u idx media w) = tinder_profiles w"
  by (induction u idx media w rule: add_all_media.induct) simp_all

lemma profiles_increment_stat [simp]:
  "tinder_profiles (increment_stat u field n w) = tinder_profiles w"
  by (simp add: increment_stat_def Let_def)

lemma profiles_ensure_wallet [simp]: "tinder_profiles (ensure_wallet u w) = tinder_profiles w"
  by (simp add: ensure_wallet_def split: option.splits)

lemma profiles_adjust_balance [simp]:
  "tinder_profiles (fst (adjust_balance u d w)) = tinder_profiles w"
  by (simp add: adjust_balance_def Let_def split: option.splits)

lemma profiles_mark_referral [simp]:
  "tinder_profiles (mark_referral_credited u w) = tinder_profiles w"
  by (simp add: mark_referral_credited_def split: option.splits prod.splits)

lemma profiles_edit_menu [simp]:
  "tinder_profiles (fst (tinder_edit_menu u w)) = tinder_profiles w"
  by (simp add: tinder_edit_menu_def start_tinder_flow_def Let_def clear_transient_state_def
           split: option.splits)

lemma profiles_candidate_card [simp]:
  "tinder_profiles (snd (send_next_candidate_card u w)) = tinder_profiles w"
  by (simp add: send_next_candidate_card_def split: option.splits)

lemma save_tail:
  "tinder_profiles (fst (
      if edit_mode w5 then tinder_edit_menu u (respond m1 (upd_ctx f w5))
      else if get_mode w5 = ''vote'' then
        (case send_next_candidate_card u w5 of
           (was_sent, w6) \<Rightarrow> (if was_sent then w6 else respond m2 w6, Inr END))
      else (respond m3 w5, Inr END))) = tinder_profiles w5"
proof -
  obtain s w6 where c: "send_next_candidate_card u w5 = (s, w6)"
    by (cases "send_next_candidate_card u w5")
  from profiles_candidate_card [of u w5] c have "tinder_profiles w6 = tinder_profiles w5" by simp
  with c show ?thesis by simp
qed

lemma save_referral:
  "tinder_profiles
     (if is_new then
        (case get_referrer u w4 of
           (Some referrer_id, Some credited) \<Rightarrow>
             if referrer_id \<noteq> 0 \<and> credited = 0 then
               respond m
                 (increment_stat u f1 1
                   (increment_stat referrer_id f2 1
                     (mark_referral_credited u
                       (fst (adjust_balance referrer_id d
                         (fst (adjust_balance u d w4)))))))
             else w4
         | _ \<Rightarrow> w4)
      else w4) = tinder_profiles w4"
  by (simp split: prod.splits option.splits)

lemma save_stat:
  "tinder_profiles (if is_new then increment_stat u f1 1 w3 else increment_stat u f2 1 w3)
     = tinder_profiles w3"
  by simp

lemma save_media:
  "tinder_profiles (if b then add_all_media u 0 media (clear_profile_media u w1) else w1)
     = tinder_profiles w1"
  by simp

lemma profiles_save_cb:
  assumes "ud_edit_for_submit (ctx w) \<noteq> Some True"
  shows "get_profile user_id (fst (tinder_save_cb E user_id full_name now w)) =
     Some \<lparr>p_user_id = user_id,
        p_age = or_int (ud_tinder_age (ctx w)) (Option.bind (get_profile user_id w) p_age),
        p_gender = or_str (ud_tinder_gender (ctx w)) (Option.bind (get_profile user_id w) p_gender),
        p_interest =
          or_str (ud_tinder_interest (ctx w)) (Option.bind (get_profile user_id w) p_interest),
        p_city = or_str (ud_tinder_city (ctx w)) (Option.bind (get_profile user_id w) p_city),
        p_normalized_city =
          or_str (ud_tinder_normalized_city (ctx w))
           (case get_profile user_id w of
              None \<Rightarrow> Some (normalize_city E
                 (case or_str (ud_tinder_city (ctx w)) (Option.bind (get_profile user_id w) p_city)
                  of None \<Rightarrow> [] | Some s \<Rightarrow> s))
            | Some p \<Rightarrow> p_normalized_city p),
        p_lat = or_none (ud_tinder_lat (ctx w)) (Option.bind (get_profile user_id w) p_lat),
        p_lon = or_none (ud_tinder_lon (ctx w)) (Option.bind (get_profile user_id w) p_lon),
        p_name = or_str (ud_tinder_name (ctx w))
           (case get_profile user_id w of None \<Rightarrow> Some full_name | Some p \<Rightarrow> p_name p),
        p_bio = or_str (ud_tinder_bio (ctx w)) (Option.bind (get_profile user_id w) p_bio),
        p_active = Some 1, p_updated_at = now\<rparr>"
  unfolding tinder_save_cb_def Let_def get_profile_def [of user_id "fst _"]
  using assms
  by (simp only: if_False save_tail save_referral save_stat save_media profiles_upd_ctx
        get_profile_upsert [unfolded get_profile_def [of _ "upsert_profile _ _ _ _ _ _ _ _ _ _ _ _"]])
subsection \<open>An input that fails a step's validator\<close>



text \<open>
  In edit mode a step saves at once: with a stored profile and the edit flag set, an
  accepted name is written to the row by the name step, which then leaves the flow.
\<close>

lemma edit_step_saves_at_once:
  "edit_mode editing_world
   \<and> map_option p_name (get_profile 1 editing_world) = Some (Some ''N'')
   \<and> map_option p_name (get_profile 1 (fst (tinder_name ascii_env 1 ''Al'' 2 editing_world)))
       = Some (Some ''Al'')
   \<and> snd (tinder_name ascii_env 1 ''Al'' 2 editing_world) = Inr END"
  by code_simp

end
